theory Spec2Isabelle
  imports Main "HOL-Library.Word" "HOL-Library.Sublist"
begin

section \<open>The shader binding of go-allegro (allegro/shader.go)\<close>

text \<open>
  The Go file is a thin layer over the C library: every function converts its arguments,
  makes at most one call into the library and turns the C result into a Go \<open>error\<close>.
  The model makes the two things explicit that the Go code leaves to its surroundings:
  \<^item> what the C side answers (the result of each library call, and whether the allocation
    helper \<open>malloc\<close> returns a block or nil) is read from an environment \<open>env\<close>;
  \<^item> what the Go side does to the C side (library calls, allocations, stores through the
    scratch pointer, releases) is returned as the list of events, in program order.

  The helpers \<open>malloc\<close>, \<open>free\<close> and \<open>freeString\<close>, the types behind \<open>*Bitmap\<close> and
  \<open>*Transform\<close> and the variable \<open>BitmapIsNull\<close> are declared in other files of the package.
  Of the helpers the model keeps what this file relies on: \<open>malloc\<close> returns a block or nil,
  \<open>free\<close> and \<open>freeString\<close> release what they are given.

  Machine types are those of the 64-bit targets of cgo: Go's \<open>int\<close> and C's \<open>size_t\<close> have
  64 bits, C's \<open>int\<close> and enumerations have 32 bits. A \<open>float32\<close> is only ever copied by this
  file, so it is represented by its 32-bit pattern. A Go string is its sequence of bytes, and
  so is the C copy that \<open>C.CString\<close> makes of it.
\<close>

subsection \<open>Machine types and conversions\<close>

type_synonym go_int = "64 word"
type_synonym float32 = "32 word"
type_synonym C_int_t = "32 word"
type_synonym C_float_t = "32 word"
type_synonym C_size_t_t = "64 word"
type_synonym addr = nat

text \<open>A pointer is \<open>addr option\<close>: \<open>None\<close> is nil.\<close>

definition C_int :: "go_int \<Rightarrow> C_int_t" where
  "C_int x = ucast x"

definition C_float :: "float32 \<Rightarrow> C_float_t" where
  "C_float x = x"

definition C_size_t :: "go_int \<Rightarrow> C_size_t_t" where
  "C_size_t x = ucast x"

definition C_enum :: "go_int \<Rightarrow> 32 word" where
  "C_enum x = ucast x"

text \<open>\<open>len\<close> of a slice, as a Go \<open>int\<close>.\<close>

definition len :: "'a list \<Rightarrow> go_int" where
  "len xs = of_nat (length xs)"

text \<open>\<open>unsafe.Sizeof(C.int(0))\<close> and \<open>unsafe.Sizeof(C.float(0.0))\<close>.\<close>

definition sizeof_C_int :: C_size_t_t where
  "sizeof_C_int = 4"

definition sizeof_C_float :: C_size_t_t where
  "sizeof_C_float = 4"

subsection \<open>Shader variable names\<close>

definition SHADER_VAR_COLOR :: string where
  "SHADER_VAR_COLOR = ''al_color''"

definition SHADER_VAR_POS :: string where
  "SHADER_VAR_POS = ''al_pos''"

definition SHADER_VAR_PROJVIEW_MATRIX :: string where
  "SHADER_VAR_PROJVIEW_MATRIX = ''al_projview_matrix''"

definition SHADER_VAR_TEX :: string where
  "SHADER_VAR_TEX = ''al_tex''"

definition SHADER_VAR_TEXCOORD :: string where
  "SHADER_VAR_TEXCOORD = ''al_texcoord''"

definition SHADER_VAR_TEX_MATRIX :: string where
  "SHADER_VAR_TEX_MATRIX = ''al_tex_matrix''"

definition SHADER_VAR_USER_ATTR :: string where
  "SHADER_VAR_USER_ATTR = ''al_user_attr_''"

definition SHADER_VAR_USE_TEX :: string where
  "SHADER_VAR_USE_TEX = ''al_use_tex''"

definition SHADER_VAR_USE_TEX_MATRIX :: string where
  "SHADER_VAR_USE_TEX_MATRIX = ''al_use_tex_matrix''"

text \<open>The nine constants of the \<open>const\<close> block, in source order, each with its Go identifier.\<close>

definition shader_var_names :: "(string \<times> string) list" where
  "shader_var_names =
     [(''SHADER_VAR_COLOR'', SHADER_VAR_COLOR),
      (''SHADER_VAR_POS'', SHADER_VAR_POS),
      (''SHADER_VAR_PROJVIEW_MATRIX'', SHADER_VAR_PROJVIEW_MATRIX),
      (''SHADER_VAR_TEX'', SHADER_VAR_TEX),
      (''SHADER_VAR_TEXCOORD'', SHADER_VAR_TEXCOORD),
      (''SHADER_VAR_TEX_MATRIX'', SHADER_VAR_TEX_MATRIX),
      (''SHADER_VAR_USER_ATTR'', SHADER_VAR_USER_ATTR),
      (''SHADER_VAR_USE_TEX'', SHADER_VAR_USE_TEX),
      (''SHADER_VAR_USE_TEX_MATRIX'', SHADER_VAR_USE_TEX_MATRIX)]"

subsection \<open>Errors and panics\<close>

text \<open>
  A Go \<open>error\<close> result is \<open>go_error option\<close>, \<open>None\<close> being nil. \<open>ShaderIsNull\<close> is the
  package variable of that name (\<open>errors.New("shader is null")\<close>); \<open>BitmapIsNull\<close> is the
  package variable that the bitmap part of the package declares; \<open>NewError m\<close> is an error made
  on the spot by \<open>errors.New\<close> or \<open>fmt.Errorf\<close>, with message \<open>m\<close>.
\<close>

datatype go_error = ShaderIsNull | BitmapIsNull | NewError string

text \<open>
  The message of an error, its \<open>Error()\<close>. The text of \<open>BitmapIsNull\<close> is written where that
  variable is declared, outside this file, and is left open.
\<close>

fun Error_text :: "go_error \<Rightarrow> string option" where
  "Error_text ShaderIsNull = Some ''shader is null''"
| "Error_text BitmapIsNull = None"
| "Error_text (NewError m) = Some m"

definition dquote :: char where
  "dquote = CHR 0x22"

text \<open>\<open>fmt.Errorf(text + "\"%s\"", arg)\<close>: the argument between double quotes.\<close>

definition Errorf :: "string \<Rightarrow> string \<Rightarrow> go_error" where
  "Errorf text arg = NewError (text @ [dquote] @ arg @ [dquote])"

text \<open>
  The scratch block is written through a pointer of type \<open>*[1<<30 - 1]C.int\<close>: Go checks
  every index against that array length and panics at an index that is not below it.
\<close>

datatype go_panic = IndexOutOfRange nat

definition garr_len :: nat where
  "garr_len = 2 ^ 30 - 1"

subsection \<open>The C side: library calls, events, environment\<close>

datatype native_call =
    al_create_shader "32 word"
  | al_attach_shader_source "addr option" "32 word" string
  | al_attach_shader_source_file "addr option" "32 word" string
  | al_build_shader "addr option"
  | al_get_shader_log "addr option"
  | al_get_shader_platform "addr option"
  | al_use_shader "addr option"
  | al_destroy_shader "addr option"
  | al_set_shader_sampler string "addr option" C_int_t
  | al_set_shader_matrix string "addr option"
  | al_set_shader_int string C_int_t
  | al_set_shader_float string C_float_t
  | al_set_shader_int_vector string C_int_t "addr option" C_int_t
  | al_set_shader_float_vector string C_int_t "addr option" C_int_t
  | al_set_shader_bool string bool
  | al_get_default_shader_source "32 word" "32 word"

text \<open>
  \<open>Alloc_CString s\<close> is \<open>C.CString(s)\<close> and \<open>Free_CString s\<close> the deferred \<open>freeString\<close> of
  that copy. \<open>Malloc n r\<close> is a call of the helper \<open>malloc\<close> for \<open>n\<close> bytes that returned \<open>r\<close>,
  \<open>Free p\<close> the deferred \<open>free\<close>. \<open>Store p k v\<close> is the assignment \<open>garr[k] = v\<close> through the
  pointer \<open>p\<close>: it writes the four bytes from offset \<open>4 * k\<close> of the block at \<open>p\<close>.
\<close>

datatype event =
    Alloc_CString string
  | Free_CString string
  | Malloc C_size_t_t "addr option"
  | Store addr nat "32 word"
  | Free addr
  | Native native_call

record env =
  malloc :: "C_size_t_t \<Rightarrow> addr option"
  native_bool :: "native_call \<Rightarrow> bool"
  native_ptr :: "native_call \<Rightarrow> addr option"
  native_enum :: "native_call \<Rightarrow> 32 word"
  native_string :: "native_call \<Rightarrow> string"

fun native_of :: "event \<Rightarrow> native_call option" where
  "native_of (Native c) = Some c"
| "native_of _ = None"

fun freed_of :: "event \<Rightarrow> addr option" where
  "freed_of (Free p) = Some p"
| "freed_of _ = None"

fun malloced_of :: "event \<Rightarrow> addr option" where
  "malloced_of (Malloc n r) = r"
| "malloced_of _ = None"

fun stored_of :: "event \<Rightarrow> (addr \<times> nat \<times> 32 word) option" where
  "stored_of (Store p k v) = Some (p, k, v)"
| "stored_of _ = None"

definition native_calls :: "event list \<Rightarrow> native_call list" where
  "native_calls evs = List.map_filter native_of evs"

definition frees :: "event list \<Rightarrow> addr list" where
  "frees evs = List.map_filter freed_of evs"

definition mallocs :: "event list \<Rightarrow> addr list" where
  "mallocs evs = List.map_filter malloced_of evs"

definition stores :: "event list \<Rightarrow> (addr \<times> nat \<times> 32 word) list" where
  "stores evs = List.map_filter stored_of evs"

text \<open>The C memory that a list of events leaves behind: the last store to a cell wins.\<close>

fun memory_step :: "(addr \<Rightarrow> nat \<Rightarrow> 32 word option) \<Rightarrow> event \<Rightarrow> (addr \<Rightarrow> nat \<Rightarrow> 32 word option)" where
  "memory_step m (Store p k v) = m(p := (m p)(k := Some v))"
| "memory_step m (Free p) = m(p := (\<lambda>k. None))"
| "memory_step m _ = m"

definition memory :: "event list \<Rightarrow> addr \<Rightarrow> nat \<Rightarrow> 32 word option" where
  "memory evs = foldl memory_step (\<lambda>p k. None) evs"

text \<open>A store at index \<open>k\<close> lies inside a block of \<open>n\<close> bytes when its four bytes do.\<close>

definition in_block :: "C_size_t_t \<Rightarrow> nat \<Rightarrow> bool" where
  "in_block n k = (4 * k + 4 \<le> unat n)"

subsection \<open>Shader objects\<close>

type_synonym ShaderType = go_int
type_synonym ShaderPlatform = go_int

definition CreateShader :: "env \<Rightarrow> ShaderPlatform \<Rightarrow> (addr option \<times> go_error option) \<times> event list" where
  "CreateShader env platform =
     (let c = al_create_shader (C_enum platform); s = native_ptr env c
      in if s = None then ((None, Some (NewError ''failed to create shader'')), [Native c])
         else ((s, None), [Native c]))"

definition AttachSource :: "env \<Rightarrow> addr option \<Rightarrow> ShaderType \<Rightarrow> string \<Rightarrow> go_error option \<times> event list" where
  "AttachSource env s stype source =
     (if s = None then (Some ShaderIsNull, [])
      else
        (let c = al_attach_shader_source s (C_enum stype) source
         in (if \<not> native_bool env c then Some (NewError ''failed to attach shader source'')
             else None,
             [Alloc_CString source, Native c, Free_CString source])))"

definition AttachSourceFile :: "env \<Rightarrow> addr option \<Rightarrow> ShaderType \<Rightarrow> string \<Rightarrow> go_error option \<times> event list" where
  "AttachSourceFile env s stype filename =
     (if s = None then (Some ShaderIsNull, [])
      else
        (let c = al_attach_shader_source_file s (C_enum stype) filename
         in (if \<not> native_bool env c then Some (Errorf ''failed to attach shader source file '' filename)
             else None,
             [Alloc_CString filename, Native c, Free_CString filename])))"

definition Build :: "env \<Rightarrow> addr option \<Rightarrow> go_error option \<times> event list" where
  "Build env s =
     (if s = None then (Some ShaderIsNull, [])
      else
        (let c = al_build_shader s
         in (if \<not> native_bool env c then Some (NewError ''failed to build shader'') else None,
             [Native c])))"

definition Log :: "env \<Rightarrow> addr option \<Rightarrow> (string \<times> go_error option) \<times> event list" where
  "Log env s =
     (if s = None then (('''', Some ShaderIsNull), [])
      else
        (let c = al_get_shader_log s
         in ((native_string env c, None), [Native c])))"

text \<open>The C enumeration has no negative member, so cgo reads it as an unsigned 32-bit value.\<close>

definition Platform :: "env \<Rightarrow> addr option \<Rightarrow> (ShaderPlatform \<times> go_error option) \<times> event list" where
  "Platform env s =
     (if s = None then ((0, Some ShaderIsNull), [])
      else
        (let c = al_get_shader_platform s
         in ((ucast (native_enum env c), None), [Native c])))"

definition UseShader :: "env \<Rightarrow> addr option \<Rightarrow> go_error option \<times> event list" where
  "UseShader env s =
     (let c = al_use_shader s
      in (if \<not> native_bool env c then Some (NewError ''failed to use shader'') else None,
          [Native c]))"

text \<open>\<open>Destroy\<close> has no result; only its events remain.\<close>

definition Destroy :: "env \<Rightarrow> addr option \<Rightarrow> event list" where
  "Destroy env s = [Native (al_destroy_shader s)]"

subsection \<open>Uniform binders\<close>

definition SetShaderSampler :: "env \<Rightarrow> string \<Rightarrow> addr option \<Rightarrow> go_int \<Rightarrow> go_error option \<times> event list" where
  "SetShaderSampler env name bmp unit =
     (if bmp = None then (Some BitmapIsNull, [])
      else
        (let c = al_set_shader_sampler name bmp (C_int unit)
         in (if \<not> native_bool env c then Some (Errorf ''failed to set shader sampler for '' name)
             else None,
             [Alloc_CString name, Native c, Free_CString name])))"

definition SetShaderMatrix :: "env \<Rightarrow> string \<Rightarrow> addr option \<Rightarrow> go_error option \<times> event list" where
  "SetShaderMatrix env name matrix =
     (let c = al_set_shader_matrix name matrix
      in (if \<not> native_bool env c then Some (Errorf ''failed to set shader matrix for '' name)
          else None,
          [Alloc_CString name, Native c, Free_CString name]))"

definition SetShaderInt :: "env \<Rightarrow> string \<Rightarrow> go_int \<Rightarrow> go_error option \<times> event list" where
  "SetShaderInt env name i =
     (let c = al_set_shader_int name (C_int i)
      in (if \<not> native_bool env c then Some (Errorf ''failed to set shader int for '' name)
          else None,
          [Alloc_CString name, Native c, Free_CString name]))"

definition SetShaderFloat :: "env \<Rightarrow> string \<Rightarrow> float32 \<Rightarrow> go_error option \<times> event list" where
  "SetShaderFloat env name f =
     (let c = al_set_shader_float name (C_float f)
      in (if \<not> native_bool env c then Some (Errorf ''failed to set shader float for '' name)
          else None,
          [Alloc_CString name, Native c, Free_CString name]))"

definition SetShaderBool :: "env \<Rightarrow> string \<Rightarrow> bool \<Rightarrow> go_error option \<times> event list" where
  "SetShaderBool env name b =
     (let c = al_set_shader_bool name b
      in (if \<not> native_bool env c then Some (Errorf ''failed to set shader bool for '' name)
          else None,
          [Alloc_CString name, Native c, Free_CString name]))"

definition DefaultShaderSource :: "env \<Rightarrow> ShaderPlatform \<Rightarrow> ShaderType \<Rightarrow> string \<times> event list" where
  "DefaultShaderSource env platform typ =
     (let c = al_get_default_shader_source (C_enum platform) (C_enum typ)
      in (native_string env c, [Native c]))"

subsection \<open>Vector uniforms\<close>

text \<open>
  The inner loop \<open>for _, elem := range slice { garr[idx] = conv(elem); idx++ }\<close>: it
  returns the index it reached, or the panic of the first index that the array type of
  \<open>garr\<close> refuses, together with the stores made until then.
\<close>

fun store_row :: "('a \<Rightarrow> 32 word) \<Rightarrow> addr \<Rightarrow> nat \<Rightarrow> 'a list \<Rightarrow> (go_panic + nat) \<times> event list" where
  "store_row conv p idx [] = (Inr idx, [])"
| "store_row conv p idx (elem # row) =
     (if idx < garr_len then
        (case store_row conv p (Suc idx) row of
           (r, evs) \<Rightarrow> (r, Store p idx (conv elem) # evs))
      else (Inl (IndexOutOfRange idx), []))"

text \<open>The outer loop \<open>for _, slice := range i\<close>.\<close>

fun store_rows :: "('a \<Rightarrow> 32 word) \<Rightarrow> addr \<Rightarrow> nat \<Rightarrow> 'a list list \<Rightarrow> (go_panic + nat) \<times> event list" where
  "store_rows conv p idx [] = (Inr idx, [])"
| "store_rows conv p idx (row # rest) =
     (case store_row conv p idx row of
        (Inl pn, evs) \<Rightarrow> (Inl pn, evs)
      | (Inr idx', evs) \<Rightarrow>
          (case store_rows conv p idx' rest of (r, evs') \<Rightarrow> (r, evs @ evs')))"

text \<open>
  The two deferred calls run on every way out, the later one first: \<open>free(cmem)\<close>, then
  \<open>freeString(name_)\<close>. A panic of the loop leaves through them as well.
\<close>

definition SetShaderIntVector :: "env \<Rightarrow> string \<Rightarrow> go_int list list \<Rightarrow> (go_panic + go_error option) \<times> event list" where
  "SetShaderIntVector env name i =
     (if length i = 0 then
        (let c = al_set_shader_int_vector name 0 None 0
         in (Inr (if \<not> native_bool env c then Some (Errorf ''failed to set int vector for '' name)
                  else None),
             [Alloc_CString name, Native c, Free_CString name]))
      else
        (let elems = len i;
             components = len (i ! 0);
             size = C_size_t (elems * components) * sizeof_C_int
         in case malloc env size of
              None \<Rightarrow>
                (Inr (Some (NewError ''failed to allocate int vector'')),
                 [Alloc_CString name, Malloc size None, Free_CString name])
            | Some cmem \<Rightarrow>
                (case store_rows C_int cmem 0 i of
                   (Inl pn, ws) \<Rightarrow>
                     (Inl pn,
                      [Alloc_CString name, Malloc size (Some cmem)] @ ws @
                      [Free cmem, Free_CString name])
                 | (Inr idx, ws) \<Rightarrow>
                     (let c = al_set_shader_int_vector name (C_int components) (Some cmem) (C_int elems)
                      in (Inr (if \<not> native_bool env c
                               then Some (Errorf ''failed to set int vector for '' name)
                               else None),
                          [Alloc_CString name, Malloc size (Some cmem)] @ ws @
                          [Native c, Free cmem, Free_CString name])))))"

definition SetShaderFloatVector :: "env \<Rightarrow> string \<Rightarrow> float32 list list \<Rightarrow> (go_panic + go_error option) \<times> event list" where
  "SetShaderFloatVector env name f =
     (if length f = 0 then
        (let c = al_set_shader_float_vector name 0 None 0
         in (Inr (if \<not> native_bool env c then Some (Errorf ''failed to set float vector for '' name)
                  else None),
             [Alloc_CString name, Native c, Free_CString name]))
      else
        (let elems = len f;
             components = len (f ! 0);
             size = C_size_t (elems * components) * sizeof_C_float
         in case malloc env size of
              None \<Rightarrow>
                (Inr (Some (NewError ''failed to allocate float vector'')),
                 [Alloc_CString name, Malloc size None, Free_CString name])
            | Some cmem \<Rightarrow>
                (case store_rows C_float cmem 0 f of
                   (Inl pn, ws) \<Rightarrow>
                     (Inl pn,
                      [Alloc_CString name, Malloc size (Some cmem)] @ ws @
                      [Free cmem, Free_CString name])
                 | (Inr idx, ws) \<Rightarrow>
                     (let c = al_set_shader_float_vector name (C_int components) (Some cmem) (C_int elems)
                      in (Inr (if \<not> native_bool env c
                               then Some (Errorf ''failed to set float vector for '' name)
                               else None),
                          [Alloc_CString name, Malloc size (Some cmem)] @ ws @
                          [Native c, Free cmem, Free_CString name])))))"

text \<open>The byte count that the two functions pass to \<open>malloc\<close>.\<close>

definition vector_size :: "'a list list \<Rightarrow> C_size_t_t" where
  "vector_size i = C_size_t (len i * len (i ! 0)) * 4"

subsection \<open>Notions used to state the properties\<close>

text \<open>Every row has the length of row 0.\<close>

definition rectangular :: "'a list list \<Rightarrow> bool" where
  "rectangular rows = list_all (\<lambda>r. length r = length (rows ! 0)) rows"

text \<open>The number of scalars of all rows together.\<close>

definition scalar_count :: "'a list list \<Rightarrow> nat" where
  "scalar_count rows = length (concat rows)"

text \<open>
  A block holds the rows in row-major order: cell \<open>row * M + col\<close> holds the converted
  \<open>rows[row][col]\<close>, where \<open>M\<close> is the length of row 0.
\<close>

definition row_major :: "('a \<Rightarrow> 32 word) \<Rightarrow> 'a list list \<Rightarrow> (nat \<Rightarrow> 32 word option) \<Rightarrow> bool" where
  "row_major conv rows block =
     list_all (\<lambda>row.
       list_all (\<lambda>col. block (row * length (rows ! 0) + col) = Some (conv (rows ! row ! col)))
         [0..<length (rows ! 0)])
       [0..<length rows]"

text \<open>The events up to the first library call: what the C side can see when it is called.\<close>

definition before_native :: "event list \<Rightarrow> event list" where
  "before_native evs = takeWhile (\<lambda>e. native_of e = None) evs"

text \<open>The events \<open>garr[0] = conv x0\<close>, \<open>garr[1] = conv x1\<close>, ... for a sequence of scalars.\<close>

definition store_events :: "('a \<Rightarrow> 32 word) \<Rightarrow> addr \<Rightarrow> 'a list \<Rightarrow> event list" where
  "store_events conv p xs = map (\<lambda>(k, v). Store p k (conv v)) (enumerate 0 xs)"

text \<open>The stores \<open>garr[0] = conv x0\<close>, \<open>garr[1] = conv x1\<close>, ... of a sequence of scalars.\<close>

definition stores_of :: "('a \<Rightarrow> 32 word) \<Rightarrow> addr \<Rightarrow> 'a list \<Rightarrow> (addr \<times> nat \<times> 32 word) list" where
  "stores_of conv p xs = map (\<lambda>(k, v). (p, k, conv v)) (enumerate 0 xs)"

text \<open>An error result carries a string when it is an error whose message contains it.\<close>

definition carries :: "string \<Rightarrow> go_error option \<Rightarrow> bool" where
  "carries a r =
     (case r of
        None \<Rightarrow> False
      | Some e \<Rightarrow> (case Error_text e of None \<Rightarrow> False | Some m \<Rightarrow> sublist a m))"

subsection \<open>Environments for the concrete runs\<close>

text \<open>Every library call succeeds and \<open>malloc\<close> returns the block at address 1.\<close>

definition env_ok :: env where
  "env_ok = \<lparr> malloc = (\<lambda>n. Some 1), native_bool = (\<lambda>c. True), native_ptr = (\<lambda>c. Some 2),
              native_enum = (\<lambda>c. 0), native_string = (\<lambda>c. '''') \<rparr>"

text \<open>Every library call reports failure.\<close>

definition env_fail :: env where
  "env_fail = \<lparr> malloc = (\<lambda>n. Some 1), native_bool = (\<lambda>c. False), native_ptr = (\<lambda>c. None),
                native_enum = (\<lambda>c. 0), native_string = (\<lambda>c. '''') \<rparr>"

text \<open>\<open>malloc\<close> returns nil.\<close>

definition env_nomem :: env where
  "env_nomem = \<lparr> malloc = (\<lambda>n. None), native_bool = (\<lambda>c. True), native_ptr = (\<lambda>c. Some 2),
                 native_enum = (\<lambda>c. 0), native_string = (\<lambda>c. '''') \<rparr>"

section \<open>Facts about the model\<close>

subsection \<open>The two loops\<close>

lemma store_row_eq:
  "idx \<le> garr_len \<Longrightarrow>
   store_row conv p idx xs =
     (if idx + length xs \<le> garr_len then Inr (idx + length xs)
      else Inl (IndexOutOfRange garr_len),
      map (\<lambda>(k, v). Store p k (conv v)) (enumerate idx (take (garr_len - idx) xs)))"
proof (induction xs arbitrary: idx)
  case Nil
  then show ?case by simp
next
  case (Cons x xs)
  show ?case
  proof (cases "idx < garr_len")
    case True
    then have t: "garr_len - idx = Suc (garr_len - Suc idx)" by simp
    from True have "Suc idx \<le> garr_len" by simp
    from Cons.IH [OF this] True show ?thesis
      by (simp add: t)
  next
    case False
    with Cons.prems have "idx = garr_len" by simp
    then show ?thesis by simp
  qed
qed

lemma store_row_append:
  "store_row conv p idx (xs @ ys) =
     (case store_row conv p idx xs of
        (Inl pn, evs) \<Rightarrow> (Inl pn, evs)
      | (Inr idx', evs) \<Rightarrow>
          (case store_row conv p idx' ys of (r, evs') \<Rightarrow> (r, evs @ evs')))"
proof (induction xs arbitrary: idx)
  case Nil
  then show ?case by (simp split: prod.splits)
next
  case (Cons x xs)
  then show ?case by (simp split: prod.splits sum.splits)
qed

lemma store_rows_concat:
  "store_rows conv p idx rows = store_row conv p idx (concat rows)"
proof (induction rows arbitrary: idx)
  case Nil
  then show ?case by simp
next
  case (Cons r rows)
  then show ?case by (simp add: store_row_append split: prod.splits sum.splits)
qed

lemma store_rows_eq:
  "store_rows conv p 0 rows =
     (if length (concat rows) \<le> garr_len then Inr (length (concat rows))
      else Inl (IndexOutOfRange garr_len),
      map (\<lambda>(k, v). Store p k (conv v)) (enumerate 0 (take garr_len (concat rows))))"
  by (simp add: store_rows_concat store_row_eq)

lemma concat_rectangular_nth:
  "\<forall>r \<in> set rows. length r = M \<Longrightarrow> row < length rows \<Longrightarrow> col < M \<Longrightarrow>
   concat rows ! (row * M + col) = rows ! row ! col"
proof (induction rows arbitrary: row)
  case Nil
  then show ?case by simp
next
  case (Cons r rows)
  show ?case
  proof (cases row)
    case 0
    with Cons.prems show ?thesis by (simp add: nth_append)
  next
    case (Suc row')
    with Cons.prems have "concat rows ! (row' * M + col) = rows ! row' ! col"
      by (intro Cons.IH) auto
    with Suc Cons.prems show ?thesis by (simp add: nth_append)
  qed
qed

lemma length_concat_rectangular:
  "\<forall>r \<in> set rows. length r = M \<Longrightarrow> length (concat rows) = length rows * M"
  by (induction rows) auto

lemma foldl_memory_stores:
  "foldl memory_step m (map (\<lambda>(k, v). Store p k (conv v)) (enumerate idx xs)) p k =
     (if idx \<le> k \<and> k < idx + length xs then Some (conv (xs ! (k - idx))) else m p k)"
proof (induction xs arbitrary: m idx)
  case Nil
  then show ?case by auto
next
  case (Cons x xs)
  have step: "foldl memory_step m (map (\<lambda>(k, v). Store p k (conv v)) (enumerate idx (x # xs))) p k =
      (if Suc idx \<le> k \<and> k < Suc idx + length xs then Some (conv (xs ! (k - Suc idx)))
       else memory_step m (Store p idx (conv x)) p k)"
    by (simp add: Cons.IH)
  consider "k < idx" | "k = idx" | "idx < k" by linarith
  then show ?case
  proof cases
    case 1
    then show ?thesis unfolding step by simp
  next
    case 2
    then show ?thesis unfolding step by simp
  next
    case 3
    then obtain j where j: "k = Suc (idx + j)" using less_iff_Suc_add by auto
    show ?thesis unfolding step by (simp add: j)
  qed
qed

subsection \<open>Sizes and conversions\<close>

lemma unat_vector_size:
  "4 * (length i * length (i ! 0)) < 2 ^ 64 \<Longrightarrow>
   unat (vector_size i) = 4 * (length i * length (i ! 0))"
proof -
  assume b: "4 * (length i * length (i ! 0)) < 2 ^ 64"
  have "vector_size i = of_nat (4 * (length i * length (i ! 0)))"
    by (simp add: vector_size_def C_size_t_def len_def)
  then show ?thesis using b by (simp add: unat_of_nat del: of_nat_mult)
qed

lemma sint_C_int:
  assumes "- (2 ^ 31) \<le> sint v" and "sint v < 2 ^ 31"
  shows "sint (C_int v) = sint v"
proof -
  have "sint (C_int v) = signed_take_bit 31 (uint v)"
    unfolding C_int_def by (simp add: signed_ucast_eq)
  also have "\<dots> = signed_take_bit 31 (take_bit 64 (sint v))"
    by (simp add: uint_sint)
  also have "\<dots> = signed_take_bit 31 (sint v)"
    by (simp add: signed_take_bit_take_bit)
  also have "\<dots> = sint v"
    using assms by (simp add: signed_take_bit_int_eq_self)
  finally show ?thesis .
qed

lemma sint_len:
  assumes "length xs < 2 ^ 63"
  shows "sint (len xs) = int (length xs)"
proof -
  have "sint (len xs) = signed_take_bit 63 (int (length xs))"
    unfolding len_def by (simp add: signed_of_nat)
  also have "\<dots> = int (length xs)"
    using assms by (intro signed_take_bit_int_eq_self) simp_all
  finally show ?thesis .
qed

lemma sint_C_int_len:
  assumes "length xs < 2 ^ 31"
  shows "sint (C_int (len xs)) = int (length xs)"
proof -
  from assms have "length xs < 2 ^ 63" by simp
  then have l: "sint (len xs) = int (length xs)" by (rule sint_len)
  with assms show ?thesis by (simp add: sint_C_int)
qed

subsection \<open>Events of the vector binders\<close>

lemma native_calls_append: "native_calls (xs @ ys) = native_calls xs @ native_calls ys"
  by (simp add: native_calls_def map_filter_def)

lemma frees_append: "frees (xs @ ys) = frees xs @ frees ys"
  by (simp add: frees_def map_filter_def)

lemma mallocs_append: "mallocs (xs @ ys) = mallocs xs @ mallocs ys"
  by (simp add: mallocs_def map_filter_def)

lemma stores_append: "stores (xs @ ys) = stores xs @ stores ys"
  by (simp add: stores_def map_filter_def)

lemma native_calls_store_events: "native_calls (store_events conv p xs) = []"
  by (simp add: native_calls_def store_events_def map_filter_def filter_empty_conv split: prod.splits)

lemma frees_store_events: "frees (store_events conv p xs) = []"
  by (simp add: frees_def store_events_def map_filter_def filter_empty_conv split: prod.splits)

lemma mallocs_store_events: "mallocs (store_events conv p xs) = []"
  by (simp add: mallocs_def store_events_def map_filter_def filter_empty_conv split: prod.splits)

lemma stores_store_events: "stores (store_events conv p xs) = stores_of conv p xs"
proof -
  have "filter (\<lambda>e. stored_of e \<noteq> None) (store_events conv p xs) = store_events conv p xs"
    by (simp add: store_events_def filter_id_conv split: prod.splits)
  then show ?thesis
    by (simp add: stores_def map_filter_def store_events_def stores_of_def split_def)
qed

lemma native_of_store_events: "e \<in> set (store_events conv p xs) \<Longrightarrow> native_of e = None"
  by (auto simp add: store_events_def)

lemma before_native_vector:
  "before_native (Alloc_CString name # Malloc n r # store_events conv p xs @ Native c # rest) =
     Alloc_CString name # Malloc n r # store_events conv p xs"
proof -
  have "takeWhile (\<lambda>e. native_of e = None) (store_events conv p xs @ Native c # rest) =
        store_events conv p xs @ takeWhile (\<lambda>e. native_of e = None) (Native c # rest)"
    by (rule takeWhile_append2) (rule native_of_store_events)
  then show ?thesis by (simp add: before_native_def)
qed

lemma memory_store_events:
  "k < length xs \<Longrightarrow>
   memory (Alloc_CString name # Malloc n r # store_events conv p xs) p k = Some (conv (xs ! k))"
  by (simp add: memory_def store_events_def foldl_memory_stores)

lemma SetShaderIntVector_nonempty:
  assumes "i \<noteq> []" and "malloc env (vector_size i) = Some p"
  shows "SetShaderIntVector env name i =
    (if scalar_count i \<le> garr_len
     then (Inr (if \<not> native_bool env (al_set_shader_int_vector name (C_int (len (i ! 0))) (Some p) (C_int (len i)))
                then Some (Errorf ''failed to set int vector for '' name) else None),
           Alloc_CString name # Malloc (vector_size i) (Some p) # store_events C_int p (concat i) @
           [Native (al_set_shader_int_vector name (C_int (len (i ! 0))) (Some p) (C_int (len i))),
            Free p, Free_CString name])
     else (Inl (IndexOutOfRange garr_len),
           Alloc_CString name # Malloc (vector_size i) (Some p) #
           store_events C_int p (take garr_len (concat i)) @ [Free p, Free_CString name]))"
  using assms unfolding SetShaderIntVector_def
  by (simp add: Let_def store_rows_eq vector_size_def sizeof_C_int_def scalar_count_def
      store_events_def)

lemma SetShaderFloatVector_nonempty:
  assumes "f \<noteq> []" and "malloc env (vector_size f) = Some p"
  shows "SetShaderFloatVector env name f =
    (if scalar_count f \<le> garr_len
     then (Inr (if \<not> native_bool env (al_set_shader_float_vector name (C_int (len (f ! 0))) (Some p) (C_int (len f)))
                then Some (Errorf ''failed to set float vector for '' name) else None),
           Alloc_CString name # Malloc (vector_size f) (Some p) # store_events C_float p (concat f) @
           [Native (al_set_shader_float_vector name (C_int (len (f ! 0))) (Some p) (C_int (len f))),
            Free p, Free_CString name])
     else (Inl (IndexOutOfRange garr_len),
           Alloc_CString name # Malloc (vector_size f) (Some p) #
           store_events C_float p (take garr_len (concat f)) @ [Free p, Free_CString name]))"
  using assms unfolding SetShaderFloatVector_def
  by (simp add: Let_def store_rows_eq vector_size_def sizeof_C_float_def scalar_count_def
      store_events_def)

lemma carries_Errorf: "carries a (Some (Errorf t a))"
proof -
  have "sublist a ((t @ [dquote]) @ a @ [dquote])" by (rule sublist_appendI)
  then show ?thesis by (simp add: carries_def Errorf_def)
qed

subsection \<open>Reading the events\<close>

lemma events_simps:
  "native_calls [] = []" "frees [] = []" "mallocs [] = []" "stores [] = []"
  "native_calls (e # es) = (case native_of e of None \<Rightarrow> native_calls es | Some c \<Rightarrow> c # native_calls es)"
  "frees (e # es) = (case freed_of e of None \<Rightarrow> frees es | Some c \<Rightarrow> c # frees es)"
  "mallocs (e # es) = (case malloced_of e of None \<Rightarrow> mallocs es | Some c \<Rightarrow> c # mallocs es)"
  "stores (e # es) = (case stored_of e of None \<Rightarrow> stores es | Some c \<Rightarrow> c # stores es)"
  by (simp_all add: native_calls_def frees_def mallocs_def stores_def map_filter_def split: option.splits)

lemma not_native_store_events: "Native c \<notin> set (store_events conv p xs)"
  by (auto simp add: store_events_def)

subsection \<open>The way out of a failed allocation\<close>

lemma SetShaderIntVector_nomem:
  "i \<noteq> [] \<Longrightarrow> malloc env (vector_size i) = None \<Longrightarrow>
   SetShaderIntVector env name i =
     (Inr (Some (NewError ''failed to allocate int vector'')),
      [Alloc_CString name, Malloc (vector_size i) None, Free_CString name])"
  by (simp add: SetShaderIntVector_def vector_size_def Let_def sizeof_C_int_def)

lemma SetShaderFloatVector_nomem:
  "f \<noteq> [] \<Longrightarrow> malloc env (vector_size f) = None \<Longrightarrow>
   SetShaderFloatVector env name f =
     (Inr (Some (NewError ''failed to allocate float vector'')),
      [Alloc_CString name, Malloc (vector_size f) None, Free_CString name])"
  by (simp add: SetShaderFloatVector_def vector_size_def Let_def sizeof_C_float_def)

subsection \<open>Rectangular inputs\<close>

lemma rectangular_iff: "rectangular rows \<longleftrightarrow> (\<forall>r \<in> set rows. length r = length (rows ! 0))"
  by (simp add: rectangular_def list_all_iff)

lemma scalar_count_rectangular:
  "rectangular rows \<Longrightarrow> scalar_count rows = length rows * length (rows ! 0)"
  unfolding scalar_count_def rectangular_iff by (rule length_concat_rectangular)

lemma row_major_memory:
  assumes "rectangular rows"
  shows "row_major conv rows
           (memory (Alloc_CString name # Malloc n r # store_events conv p (concat rows)) p)"
proof -
  let ?M = "length (rows ! 0)"
  from assms have all: "\<forall>r \<in> set rows. length r = ?M" by (simp add: rectangular_iff)
  have "memory (Alloc_CString name # Malloc n r # store_events conv p (concat rows)) p (row * ?M + col) =
        Some (conv (rows ! row ! col))"
    if "row < length rows" and "col < ?M" for row col
  proof -
    have lc: "length (concat rows) = length rows * ?M"
      using all by (rule length_concat_rectangular)
    have "row * ?M + col < Suc row * ?M" using that by simp
    also have "\<dots> \<le> length rows * ?M" using that by (intro mult_le_mono1) simp
    finally have "row * ?M + col < length (concat rows)"
      by (simp only: lc)
    then have "memory (Alloc_CString name # Malloc n r # store_events conv p (concat rows)) p (row * ?M + col) =
        Some (conv (concat rows ! (row * ?M + col)))"
      by (rule memory_store_events)
    also have "concat rows ! (row * ?M + col) = rows ! row ! col"
      using all that by (rule concat_rectangular_nth)
    finally show ?thesis .
  qed
  then show ?thesis by (simp add: row_major_def list_all_iff)
qed

lemma vector_bounds:
  assumes "rectangular rows" and "rows \<noteq> []" and "scalar_count rows \<le> garr_len"
  shows "4 * (length rows * length (rows ! 0)) < 2 ^ 64" and "length (rows ! 0) < 2 ^ 31"
proof -
  from assms have b: "length rows * length (rows ! 0) \<le> garr_len"
    by (simp add: scalar_count_rectangular)
  then show "4 * (length rows * length (rows ! 0)) < 2 ^ 64" by (simp add: garr_len_def)
  from assms(2) have "1 \<le> length rows" by (cases rows) simp_all
  then have "1 * length (rows ! 0) \<le> length rows * length (rows ! 0)" by (rule mult_le_mono1)
  then have "length (rows ! 0) \<le> length rows * length (rows ! 0)" by (simp only: mult_1)
  with b have "length (rows ! 0) \<le> garr_len" by (rule order_trans [rotated])
  also have "garr_len < 2 ^ 31" by (simp add: garr_len_def)
  finally show "length (rows ! 0) < 2 ^ 31" .
qed

subsection \<open>Store indices and block bounds\<close>

lemma stores_of_indices: "map (fst \<circ> snd) (stores_of conv p xs) = [0..<length xs]"
proof -
  have "map (fst \<circ> snd) (stores_of conv p xs) = map fst (enumerate 0 xs)"
    by (simp add: stores_of_def split_def comp_def)
  then show ?thesis by simp
qed

lemma length_stores_of: "length (stores_of conv p xs) = length xs"
  by (simp add: stores_of_def)

lemma list_all_indices:
  "list_all (\<lambda>(q, k, v). P k) ys = list_all P (map (fst \<circ> snd) ys)"
  by (induction ys) auto

lemma in_block_iff: "unat n = 4 * b \<Longrightarrow> in_block n k \<longleftrightarrow> k < b"
  by (auto simp add: in_block_def)

lemma stores_in_block:
  assumes "unat n = 4 * b"
  shows "list_all (\<lambda>(q, k, v). in_block n k) (stores_of conv p xs) \<longleftrightarrow> length xs \<le> b"
proof -
  have "list_all (\<lambda>(q, k, v). in_block n k) (stores_of conv p xs) \<longleftrightarrow>
        list_all (in_block n) (map (fst \<circ> snd) (stores_of conv p xs))"
    by (rule list_all_indices)
  also have "\<dots> \<longleftrightarrow> list_all (in_block n) [0..<length xs]"
    by (simp only: stores_of_indices)
  also have "\<dots> \<longleftrightarrow> (\<forall>k < length xs. k < b)"
    by (auto simp add: list_all_iff in_block_iff [OF assms])
  also have "\<dots> \<longleftrightarrow> length xs \<le> b"
  proof
    assume a: "\<forall>k < length xs. k < b"
    show "length xs \<le> b"
    proof (cases "length xs")
      case 0
      then show ?thesis by simp
    next
      case (Suc m)
      with a have "m < b" by simp
      with Suc show ?thesis by simp
    qed
  next
    assume "length xs \<le> b"
    then show "\<forall>k < length xs. k < b" by simp
  qed
  finally show ?thesis .
qed

subsection \<open>Concrete runs\<close>

lemma run_square:
  "SetShaderIntVector env_ok ''u'' [[1, 2], [3, 4]] =
     (Inr None,
      [Alloc_CString ''u'', Malloc 16 (Some 1), Store 1 0 1, Store 1 1 2, Store 1 2 3, Store 1 3 4,
       Native (al_set_shader_int_vector ''u'' 2 (Some 1) 2), Free 1, Free_CString ''u''])"
  by (simp add: SetShaderIntVector_def Let_def len_def C_size_t_def C_int_def sizeof_C_int_def
      garr_len_def env_ok_def)

lemma run_square_fail:
  "SetShaderIntVector env_fail ''u'' [[1, 2], [3, 4]] =
     (Inr (Some (Errorf ''failed to set int vector for '' ''u'')),
      [Alloc_CString ''u'', Malloc 16 (Some 1), Store 1 0 1, Store 1 1 2, Store 1 2 3, Store 1 3 4,
       Native (al_set_shader_int_vector ''u'' 2 (Some 1) 2), Free 1, Free_CString ''u''])"
  by (simp add: SetShaderIntVector_def Let_def len_def C_size_t_def C_int_def sizeof_C_int_def
      garr_len_def env_fail_def)

lemma run_float_ok:
  "SetShaderFloatVector env_ok ''u'' [[5, 6]] =
     (Inr None,
      [Alloc_CString ''u'', Malloc 8 (Some 1), Store 1 0 5, Store 1 1 6,
       Native (al_set_shader_float_vector ''u'' 2 (Some 1) 1), Free 1, Free_CString ''u''])"
  by (simp add: SetShaderFloatVector_def Let_def len_def C_size_t_def C_int_def C_float_def
      sizeof_C_float_def garr_len_def env_ok_def)

lemma run_float:
  "SetShaderFloatVector env_fail ''u'' [[5, 6]] =
     (Inr (Some (Errorf ''failed to set float vector for '' ''u'')),
      [Alloc_CString ''u'', Malloc 8 (Some 1), Store 1 0 5, Store 1 1 6,
       Native (al_set_shader_float_vector ''u'' 2 (Some 1) 1), Free 1, Free_CString ''u''])"
  by (simp add: SetShaderFloatVector_def Let_def len_def C_size_t_def C_int_def C_float_def sizeof_C_float_def
      garr_len_def env_fail_def)

lemma run_ragged:
  "SetShaderIntVector env_ok ''u'' [[1], [2, 3]] =
     (Inr None,
      [Alloc_CString ''u'', Malloc 8 (Some 1), Store 1 0 1, Store 1 1 2, Store 1 2 3,
       Native (al_set_shader_int_vector ''u'' 1 (Some 1) 2), Free 1, Free_CString ''u''])"
  by (simp add: SetShaderIntVector_def Let_def len_def C_size_t_def C_int_def sizeof_C_int_def
      garr_len_def env_ok_def)

lemma run_ragged_float:
  "SetShaderFloatVector env_ok ''u'' [[1], [2, 3]] =
     (Inr None,
      [Alloc_CString ''u'', Malloc 8 (Some 1), Store 1 0 1, Store 1 1 2, Store 1 2 3,
       Native (al_set_shader_float_vector ''u'' 1 (Some 1) 2), Free 1, Free_CString ''u''])"
  by (simp add: SetShaderFloatVector_def Let_def len_def C_size_t_def C_int_def C_float_def
      sizeof_C_float_def garr_len_def env_ok_def)

lemma run_trunc:
  "SetShaderIntVector env_ok ''u'' [[0x100000000]] =
     (Inr None,
      [Alloc_CString ''u'', Malloc 4 (Some 1), Store 1 0 0,
       Native (al_set_shader_int_vector ''u'' 1 (Some 1) 1), Free 1, Free_CString ''u''])"
  by (simp add: SetShaderIntVector_def Let_def len_def C_size_t_def C_int_def sizeof_C_int_def
      garr_len_def env_ok_def)

lemma scalar_count_replicate: "scalar_count (replicate n [x]) = n"
  by (simp add: scalar_count_def length_concat sum_list_replicate)

lemma run_big:
  "fst (SetShaderIntVector env_ok ''u'' (replicate (2 ^ 30) [0])) = Inl (IndexOutOfRange (2 ^ 30 - 1)) \<and>
   native_calls (snd (SetShaderIntVector env_ok ''u'' (replicate (2 ^ 30) [0]))) = []"
proof -
  have ne: "replicate (2 ^ 30) [0 :: go_int] \<noteq> []" by simp
  have m: "malloc env_ok (vector_size (replicate (2 ^ 30) [0 :: go_int])) = Some 1"
    by (simp add: env_ok_def)
  have big: "\<not> scalar_count (replicate (2 ^ 30) [0 :: go_int]) \<le> garr_len"
    by (simp add: scalar_count_replicate garr_len_def)
  show ?thesis
    unfolding SetShaderIntVector_nonempty [OF ne m]
    by (simp only: big if_False fst_conv snd_conv)
      (simp add: native_calls_append native_calls_store_events events_simps garr_len_def)
qed

lemma scalar_count_long_row: "scalar_count (replicate n x # replicate m []) = n"
  by (simp add: scalar_count_def)

lemma ragged_beyond_block:
  "(\<exists>(rows :: go_int list list) env p.
      rows \<noteq> [] \<and> length (rows ! 0) < length (rows ! 1) \<and>
      mallocs (snd (SetShaderIntVector env ''u'' rows)) = [p] \<and>
      \<not> list_all (\<lambda>(q, k, v). in_block (vector_size rows) k)
           (stores (snd (SetShaderIntVector env ''u'' rows)))) \<and>
   (\<exists>(rows :: float32 list list) env p.
      rows \<noteq> [] \<and> length (rows ! 0) < length (rows ! 1) \<and>
      mallocs (snd (SetShaderFloatVector env ''u'' rows)) = [p] \<and>
      \<not> list_all (\<lambda>(q, k, v). in_block (vector_size rows) k)
           (stores (snd (SetShaderFloatVector env ''u'' rows))))"
proof (intro conjI)
  have v: "vector_size [[1], [2, 3 :: go_int]] = 8"
    by (simp add: vector_size_def len_def C_size_t_def)
  show "\<exists>(rows :: go_int list list) env p.
      rows \<noteq> [] \<and> length (rows ! 0) < length (rows ! 1) \<and>
      mallocs (snd (SetShaderIntVector env ''u'' rows)) = [p] \<and>
      \<not> list_all (\<lambda>(q, k, v). in_block (vector_size rows) k)
           (stores (snd (SetShaderIntVector env ''u'' rows)))"
    by (rule exI [of _ "[[1], [2, 3]]"], rule exI [of _ env_ok], rule exI [of _ 1])
      (simp add: run_ragged v events_simps in_block_def)
  have w: "vector_size [[1], [2, 3 :: float32]] = 8"
    by (simp add: vector_size_def len_def C_size_t_def)
  show "\<exists>(rows :: float32 list list) env p.
      rows \<noteq> [] \<and> length (rows ! 0) < length (rows ! 1) \<and>
      mallocs (snd (SetShaderFloatVector env ''u'' rows)) = [p] \<and>
      \<not> list_all (\<lambda>(q, k, v). in_block (vector_size rows) k)
           (stores (snd (SetShaderFloatVector env ''u'' rows)))"
    by (rule exI [of _ "[[1], [2, 3]]"], rule exI [of _ env_ok], rule exI [of _ 1])
      (simp add: run_ragged_float w events_simps in_block_def)
qed

subsection \<open>The stores of any input\<close>

lemma concatenated_stores:
  "(i \<noteq> [] \<and> scalar_count i \<le> garr_len \<and> 4 * (length i * length (i ! 0)) < 2 ^ 64 \<and>
    malloc env (vector_size i) = Some p \<longrightarrow>
      mallocs (snd (SetShaderIntVector env name i)) = [p] \<and>
      unat (vector_size i) = 4 * (length i * length (i ! 0)) \<and>
      stores (snd (SetShaderIntVector env name i)) = stores_of C_int p (concat i) \<and>
      map (fst \<circ> snd) (stores (snd (SetShaderIntVector env name i))) = [0..<scalar_count i] \<and>
      length (stores (snd (SetShaderIntVector env name i))) = sum_list (map length i) \<and>
      list_all (\<lambda>(q, k, v). in_block (vector_size i) k) (stores (snd (SetShaderIntVector env name i))) =
        (sum_list (map length i) \<le> length i * length (i ! 0))) \<and>
   (f \<noteq> [] \<and> scalar_count f \<le> garr_len \<and> 4 * (length f * length (f ! 0)) < 2 ^ 64 \<and>
    malloc env (vector_size f) = Some p \<longrightarrow>
      mallocs (snd (SetShaderFloatVector env name f)) = [p] \<and>
      unat (vector_size f) = 4 * (length f * length (f ! 0)) \<and>
      stores (snd (SetShaderFloatVector env name f)) = stores_of C_float p (concat f) \<and>
      map (fst \<circ> snd) (stores (snd (SetShaderFloatVector env name f))) = [0..<scalar_count f] \<and>
      length (stores (snd (SetShaderFloatVector env name f))) = sum_list (map length f) \<and>
      list_all (\<lambda>(q, k, v). in_block (vector_size f) k) (stores (snd (SetShaderFloatVector env name f))) =
        (sum_list (map length f) \<le> length f * length (f ! 0)))"
proof (intro conjI impI)
  assume a: "i \<noteq> [] \<and> scalar_count i \<le> garr_len \<and> 4 * (length i * length (i ! 0)) < 2 ^ 64 \<and>
    malloc env (vector_size i) = Some p"
  let ?c = "al_set_shader_int_vector name (C_int (len (i ! 0))) (Some p) (C_int (len i))"
  let ?evs = "snd (SetShaderIntVector env name i)"
  from a have e: "?evs = Alloc_CString name # Malloc (vector_size i) (Some p) #
      store_events C_int p (concat i) @ [Native ?c, Free p, Free_CString name]"
    by (simp add: SetShaderIntVector_nonempty)
  show "mallocs ?evs = [p]"
    unfolding e by (simp add: mallocs_append mallocs_store_events events_simps)
  from a show u: "unat (vector_size i) = 4 * (length i * length (i ! 0))"
    by (intro unat_vector_size) simp
  show s: "stores ?evs = stores_of C_int p (concat i)"
    unfolding e by (simp add: stores_append stores_store_events events_simps)
  show "map (fst \<circ> snd) (stores ?evs) = [0..<scalar_count i]"
    unfolding s by (simp only: stores_of_indices scalar_count_def)
  show "length (stores ?evs) = sum_list (map length i)"
    unfolding s by (simp only: length_stores_of length_concat)
  show "list_all (\<lambda>(q, k, v). in_block (vector_size i) k) (stores ?evs) =
      (sum_list (map length i) \<le> length i * length (i ! 0))"
    unfolding s by (simp only: stores_in_block [OF u] length_concat)
next
  assume a: "f \<noteq> [] \<and> scalar_count f \<le> garr_len \<and> 4 * (length f * length (f ! 0)) < 2 ^ 64 \<and>
    malloc env (vector_size f) = Some p"
  let ?c = "al_set_shader_float_vector name (C_int (len (f ! 0))) (Some p) (C_int (len f))"
  let ?evs = "snd (SetShaderFloatVector env name f)"
  from a have e: "?evs = Alloc_CString name # Malloc (vector_size f) (Some p) #
      store_events C_float p (concat f) @ [Native ?c, Free p, Free_CString name]"
    by (simp add: SetShaderFloatVector_nonempty)
  show "mallocs ?evs = [p]"
    unfolding e by (simp add: mallocs_append mallocs_store_events events_simps)
  from a show u: "unat (vector_size f) = 4 * (length f * length (f ! 0))"
    by (intro unat_vector_size) simp
  show s: "stores ?evs = stores_of C_float p (concat f)"
    unfolding e by (simp add: stores_append stores_store_events events_simps)
  show "map (fst \<circ> snd) (stores ?evs) = [0..<scalar_count f]"
    unfolding s by (simp only: stores_of_indices scalar_count_def)
  show "length (stores ?evs) = sum_list (map length f)"
    unfolding s by (simp only: length_stores_of length_concat)
  show "list_all (\<lambda>(q, k, v). in_block (vector_size f) k) (stores ?evs) =
      (sum_list (map length f) \<le> length f * length (f ! 0))"
    unfolding s by (simp only: stores_in_block [OF u] length_concat)
qed


section \<open>Properties\<close>

subsection \<open>Reserved names\<close>

text \<open>
  C10. The exported shader variable names are exactly the strings "al_pos", "al_color",
  "al_projview_matrix", "al_tex", "al_texcoord", "al_tex_matrix", "al_use_tex",
  "al_use_tex_matrix" and the user attribute prefix "al_user_attr_": the constant block
  holds these nine values and no other.
\<close>

theorem C10_reserved_names:
  "SHADER_VAR_POS = ''al_pos'' \<and>
   SHADER_VAR_COLOR = ''al_color'' \<and>
   SHADER_VAR_PROJVIEW_MATRIX = ''al_projview_matrix'' \<and>
   SHADER_VAR_TEX = ''al_tex'' \<and>
   SHADER_VAR_TEXCOORD = ''al_texcoord'' \<and>
   SHADER_VAR_TEX_MATRIX = ''al_tex_matrix'' \<and>
   SHADER_VAR_USE_TEX = ''al_use_tex'' \<and>
   SHADER_VAR_USE_TEX_MATRIX = ''al_use_tex_matrix'' \<and>
   SHADER_VAR_USER_ATTR = ''al_user_attr_'' \<and>
   set (map snd shader_var_names) =
     {''al_pos'', ''al_color'', ''al_projview_matrix'', ''al_tex'', ''al_texcoord'',
      ''al_tex_matrix'', ''al_use_tex'', ''al_use_tex_matrix'', ''al_user_attr_''} \<and>
   distinct (map snd shader_var_names)"
  unfolding shader_var_names_def SHADER_VAR_COLOR_def SHADER_VAR_POS_def
    SHADER_VAR_PROJVIEW_MATRIX_def SHADER_VAR_TEX_def SHADER_VAR_TEXCOORD_def
    SHADER_VAR_TEX_MATRIX_def SHADER_VAR_USER_ATTR_def SHADER_VAR_USE_TEX_def
    SHADER_VAR_USE_TEX_MATRIX_def
  by auto

subsection \<open>Operations on a nil shader\<close>

text \<open>
  C2, as the code has it. \<open>AttachSource\<close>, \<open>AttachSourceFile\<close>, \<open>Build\<close>, \<open>Log\<close> and
  \<open>Platform\<close> on a nil shader return the error \<open>ShaderIsNull\<close> ("shader is null") and make
  no library call, no allocation, nothing at all. \<open>Destroy\<close> has no error result and no nil
  check: on a nil shader it passes nil to \<open>al_destroy_shader\<close>.
\<close>

theorem C2_nil_shader:
  "AttachSource env None stype source = (Some ShaderIsNull, []) \<and>
   AttachSourceFile env None stype filename = (Some ShaderIsNull, []) \<and>
   Build env None = (Some ShaderIsNull, []) \<and>
   Log env None = (('''', Some ShaderIsNull), []) \<and>
   Platform env None = ((0, Some ShaderIsNull), []) \<and>
   Error_text ShaderIsNull = Some ''shader is null'' \<and>
   Destroy env None = [Native (al_destroy_shader None)]"
  by (simp add: AttachSource_def AttachSourceFile_def Build_def Log_def Platform_def Destroy_def
      Let_def)

text \<open>
  C2 as stated includes \<open>Destroy\<close> among the operations that make no library call on a nil
  shader. The run of \<open>Destroy\<close> on nil makes one.
\<close>

theorem C2_destroy_nil_counterexample:
  "native_calls (Destroy env_ok None) = [al_destroy_shader None]"
  by (simp add: Destroy_def native_calls_def map_filter_def)

subsection \<open>Activation\<close>

text \<open>
  C9. \<open>UseShader\<close> has no nil check: a nil shader is passed to \<open>al_use_shader\<close> and never
  yields \<open>ShaderIsNull\<close>. For every argument the result is the error "failed to use shader"
  exactly when the call reports failure, and nil otherwise.
\<close>

theorem C9_use_shader:
  "UseShader env s =
     (if native_bool env (al_use_shader s) then None else Some (NewError ''failed to use shader''),
      [Native (al_use_shader s)]) \<and>
   native_calls (snd (UseShader env None)) = [al_use_shader None] \<and>
   fst (UseShader env None) \<noteq> Some ShaderIsNull \<and>
   (fst (UseShader env s) = Some (NewError ''failed to use shader'')) =
     (\<not> native_bool env (al_use_shader s)) \<and>
   (fst (UseShader env s) = None) = native_bool env (al_use_shader s)"
  by (simp add: UseShader_def native_calls_def map_filter_def Let_def)

subsection \<open>Samplers\<close>

text \<open>
  C7. For every name and unit, \<open>SetShaderSampler\<close> with a nil bitmap returns \<open>BitmapIsNull\<close>
  and does nothing else; that error is not one of the errors of a failed call. With a
  bitmap it makes the library call, and it returns an error that carries the uniform name
  exactly when the call reports failure, nil otherwise.
\<close>

theorem C7_sampler:
  "SetShaderSampler env name None unit = (Some BitmapIsNull, []) \<and>
   SetShaderSampler env name (Some b) unit =
     (if native_bool env (al_set_shader_sampler name (Some b) (C_int unit)) then None
      else Some (Errorf ''failed to set shader sampler for '' name),
      [Alloc_CString name, Native (al_set_shader_sampler name (Some b) (C_int unit)),
       Free_CString name]) \<and>
   carries name (fst (SetShaderSampler env name (Some b) unit)) =
     (\<not> native_bool env (al_set_shader_sampler name (Some b) (C_int unit))) \<and>
   (fst (SetShaderSampler env name (Some b) unit) = None) =
     native_bool env (al_set_shader_sampler name (Some b) (C_int unit)) \<and>
   BitmapIsNull \<noteq> Errorf t name"
  by (simp add: SetShaderSampler_def carries_Errorf Let_def) (simp add: carries_def Errorf_def)

subsection \<open>Empty vectors\<close>

text \<open>
  C3. On an empty input, \<open>SetShaderIntVector\<close> and \<open>SetShaderFloatVector\<close> make exactly one
  library call, the bind with zero components, a nil pointer and zero elements. They
  allocate no scratch block, and the emptiness is no error: the result is nil when the
  call succeeds.
\<close>

theorem C3_empty_vector:
  "SetShaderIntVector env name [] =
     (Inr (if native_bool env (al_set_shader_int_vector name 0 None 0) then None
           else Some (Errorf ''failed to set int vector for '' name)),
      [Alloc_CString name, Native (al_set_shader_int_vector name 0 None 0), Free_CString name]) \<and>
   native_calls (snd (SetShaderIntVector env name [])) = [al_set_shader_int_vector name 0 None 0] \<and>
   mallocs (snd (SetShaderIntVector env name [])) = [] \<and>
   SetShaderFloatVector env name [] =
     (Inr (if native_bool env (al_set_shader_float_vector name 0 None 0) then None
           else Some (Errorf ''failed to set float vector for '' name)),
      [Alloc_CString name, Native (al_set_shader_float_vector name 0 None 0), Free_CString name]) \<and>
   native_calls (snd (SetShaderFloatVector env name [])) = [al_set_shader_float_vector name 0 None 0] \<and>
   mallocs (snd (SetShaderFloatVector env name [])) = []"
  by (simp add: SetShaderIntVector_def SetShaderFloatVector_def native_calls_def mallocs_def
      map_filter_def Let_def)

subsection \<open>Allocation failure\<close>

text \<open>
  C4, as the code has it. On a non-empty input for which \<open>malloc\<close> returns nil,
  \<open>SetShaderIntVector\<close> returns the error "failed to allocate int vector" and
  \<open>SetShaderFloatVector\<close> the error "failed to allocate float vector". Each is an error of
  its own, made on the spot, and each is returned before any library call: the events are
  the copy of the name, the failed allocation and the release of the copy.
\<close>

theorem C4_allocation_failure:
  "(i \<noteq> [] \<and> malloc env (vector_size i) = None \<longrightarrow>
      SetShaderIntVector env name i =
        (Inr (Some (NewError ''failed to allocate int vector'')),
         [Alloc_CString name, Malloc (vector_size i) None, Free_CString name]) \<and>
      native_calls (snd (SetShaderIntVector env name i)) = []) \<and>
   (f \<noteq> [] \<and> malloc env (vector_size f) = None \<longrightarrow>
      SetShaderFloatVector env name f =
        (Inr (Some (NewError ''failed to allocate float vector'')),
         [Alloc_CString name, Malloc (vector_size f) None, Free_CString name]) \<and>
      native_calls (snd (SetShaderFloatVector env name f)) = [])"
  by (simp add: SetShaderIntVector_def SetShaderFloatVector_def vector_size_def Let_def
      sizeof_C_int_def sizeof_C_float_def native_calls_def map_filter_def)

text \<open>C4 at the inputs \<open>[[1, 2]]\<close> and \<open>[[3]]\<close>, with a \<open>malloc\<close> that returns nil.\<close>

theorem C4_allocation_failure_witness:
  "[[1, 2]] \<noteq> ([] :: go_int list list) \<and> malloc env_nomem (vector_size [[1, 2 :: go_int]]) = None \<and>
   SetShaderIntVector env_nomem ''u'' [[1, 2]] =
     (Inr (Some (NewError ''failed to allocate int vector'')),
      [Alloc_CString ''u'', Malloc 8 None, Free_CString ''u'']) \<and>
   native_calls (snd (SetShaderIntVector env_nomem ''u'' [[1, 2]])) = [] \<and>
   [[3]] \<noteq> ([] :: float32 list list) \<and> malloc env_nomem (vector_size [[3 :: float32]]) = None \<and>
   SetShaderFloatVector env_nomem ''u'' [[3]] =
     (Inr (Some (NewError ''failed to allocate float vector'')),
      [Alloc_CString ''u'', Malloc 4 None, Free_CString ''u'']) \<and>
   native_calls (snd (SetShaderFloatVector env_nomem ''u'' [[3]])) = []"
proof -
  have h: "[[1, 2]] \<noteq> ([] :: go_int list list) \<and> malloc env_nomem (vector_size [[1, 2 :: go_int]]) = None"
    "[[3]] \<noteq> ([] :: float32 list list) \<and> malloc env_nomem (vector_size [[3 :: float32]]) = None"
    by (simp_all add: env_nomem_def)
  have v: "vector_size [[1, 2 :: go_int]] = 8" "vector_size [[3 :: float32]] = 4"
    by (simp_all add: vector_size_def len_def C_size_t_def)
  from C4_allocation_failure [of "[[1, 2]]" env_nomem "''u''" "[[3]]"] h v
  show ?thesis by (simp add: native_calls_def map_filter_def)
qed

text \<open>
  C4 as stated gives the message "failed to allocate vector buffer". Neither function
  returns an error with that message.
\<close>

theorem C4_message_counterexample:
  "fst (SetShaderIntVector env_nomem ''u'' [[1, 2]]) =
     Inr (Some (NewError ''failed to allocate int vector'')) \<and>
   fst (SetShaderIntVector env_nomem ''u'' [[1, 2]]) \<noteq>
     Inr (Some (NewError ''failed to allocate vector buffer'')) \<and>
   fst (SetShaderFloatVector env_nomem ''u'' [[3]]) =
     Inr (Some (NewError ''failed to allocate float vector'')) \<and>
   fst (SetShaderFloatVector env_nomem ''u'' [[3]]) \<noteq>
     Inr (Some (NewError ''failed to allocate vector buffer''))"
  by (simp add: SetShaderIntVector_def SetShaderFloatVector_def Let_def env_nomem_def)

subsection \<open>Release of the scratch block\<close>

text \<open>
  C5. On a non-empty input for which \<open>malloc\<close> returns a block \<open>p\<close>, the run allocates
  once and frees once, and what it frees is \<open>p\<close>: the last two events are \<open>free(p)\<close> and
  the release of the name, nothing before them frees anything, and every library call of
  the run comes before them. This holds whatever the library call answers, and also when
  the loop panics; no block outlives the call.
\<close>

theorem C5_scratch_released_once:
  "(i \<noteq> [] \<and> malloc env (vector_size i) = Some p \<longrightarrow>
      mallocs (snd (SetShaderIntVector env name i)) = [p] \<and>
      frees (snd (SetShaderIntVector env name i)) = [p] \<and>
      (\<exists>pre. snd (SetShaderIntVector env name i) = pre @ [Free p, Free_CString name] \<and>
             frees pre = [] \<and>
             native_calls pre = native_calls (snd (SetShaderIntVector env name i)))) \<and>
   (f \<noteq> [] \<and> malloc env (vector_size f) = Some p \<longrightarrow>
      mallocs (snd (SetShaderFloatVector env name f)) = [p] \<and>
      frees (snd (SetShaderFloatVector env name f)) = [p] \<and>
      (\<exists>pre. snd (SetShaderFloatVector env name f) = pre @ [Free p, Free_CString name] \<and>
             frees pre = [] \<and>
             native_calls pre = native_calls (snd (SetShaderFloatVector env name f))))"
proof (intro conjI impI)
  assume a: "i \<noteq> [] \<and> malloc env (vector_size i) = Some p"
  let ?c = "al_set_shader_int_vector name (C_int (len (i ! 0))) (Some p) (C_int (len i))"
  let ?evs = "snd (SetShaderIntVector env name i)"
  let ?pre = "if scalar_count i \<le> garr_len
      then Alloc_CString name # Malloc (vector_size i) (Some p) # store_events C_int p (concat i) @ [Native ?c]
      else Alloc_CString name # Malloc (vector_size i) (Some p) # store_events C_int p (take garr_len (concat i))"
  from a have e: "?evs = ?pre @ [Free p, Free_CString name]"
    by (simp add: SetShaderIntVector_nonempty)
  show "mallocs ?evs = [p]"
    unfolding e by (simp add: mallocs_append mallocs_store_events events_simps)
  show "frees ?evs = [p]"
    unfolding e by (simp add: frees_append frees_store_events events_simps)
  have "frees ?pre = []"
    by (simp add: frees_append frees_store_events events_simps)
  moreover have "native_calls ?pre = native_calls ?evs"
    unfolding e by (simp add: native_calls_append events_simps)
  ultimately show "\<exists>pre. ?evs = pre @ [Free p, Free_CString name] \<and> frees pre = [] \<and>
      native_calls pre = native_calls ?evs"
    using e by blast
next
  assume a: "f \<noteq> [] \<and> malloc env (vector_size f) = Some p"
  let ?c = "al_set_shader_float_vector name (C_int (len (f ! 0))) (Some p) (C_int (len f))"
  let ?evs = "snd (SetShaderFloatVector env name f)"
  let ?pre = "if scalar_count f \<le> garr_len
      then Alloc_CString name # Malloc (vector_size f) (Some p) # store_events C_float p (concat f) @ [Native ?c]
      else Alloc_CString name # Malloc (vector_size f) (Some p) # store_events C_float p (take garr_len (concat f))"
  from a have e: "?evs = ?pre @ [Free p, Free_CString name]"
    by (simp add: SetShaderFloatVector_nonempty)
  show "mallocs ?evs = [p]"
    unfolding e by (simp add: mallocs_append mallocs_store_events events_simps)
  show "frees ?evs = [p]"
    unfolding e by (simp add: frees_append frees_store_events events_simps)
  have "frees ?pre = []"
    by (simp add: frees_append frees_store_events events_simps)
  moreover have "native_calls ?pre = native_calls ?evs"
    unfolding e by (simp add: native_calls_append events_simps)
  ultimately show "\<exists>pre. ?evs = pre @ [Free p, Free_CString name] \<and> frees pre = [] \<and>
      native_calls pre = native_calls ?evs"
    using e by blast
qed

text \<open>
  C5 at \<open>[[1, 2], [3, 4]]\<close> and \<open>[[5, 6]]\<close>, once with a bind call that succeeds and once
  with one that fails.
\<close>

theorem C5_scratch_released_once_witness:
  "[[1, 2], [3, 4]] \<noteq> ([] :: go_int list list) \<and>
   malloc env_ok (vector_size [[1, 2], [3, 4 :: go_int]]) = Some 1 \<and>
   fst (SetShaderIntVector env_ok ''u'' [[1, 2], [3, 4]]) = Inr None \<and>
   mallocs (snd (SetShaderIntVector env_ok ''u'' [[1, 2], [3, 4]])) = [1] \<and>
   frees (snd (SetShaderIntVector env_ok ''u'' [[1, 2], [3, 4]])) = [1] \<and>
   malloc env_fail (vector_size [[1, 2], [3, 4 :: go_int]]) = Some 1 \<and>
   fst (SetShaderIntVector env_fail ''u'' [[1, 2], [3, 4]]) =
     Inr (Some (Errorf ''failed to set int vector for '' ''u'')) \<and>
   mallocs (snd (SetShaderIntVector env_fail ''u'' [[1, 2], [3, 4]])) = [1] \<and>
   frees (snd (SetShaderIntVector env_fail ''u'' [[1, 2], [3, 4]])) = [1] \<and>
   [[5, 6]] \<noteq> ([] :: float32 list list) \<and>
   malloc env_fail (vector_size [[5, 6 :: float32]]) = Some 1 \<and>
   mallocs (snd (SetShaderFloatVector env_fail ''u'' [[5, 6]])) = [1] \<and>
   frees (snd (SetShaderFloatVector env_fail ''u'' [[5, 6]])) = [1]"
proof -
  have h1: "[[1, 2], [3, 4]] \<noteq> ([] :: go_int list list) \<and>
      malloc env_ok (vector_size [[1, 2], [3, 4 :: go_int]]) = Some 1"
    and h2: "[[1, 2], [3, 4]] \<noteq> ([] :: go_int list list) \<and>
      malloc env_fail (vector_size [[1, 2], [3, 4 :: go_int]]) = Some 1"
    and h3: "[[5, 6]] \<noteq> ([] :: float32 list list) \<and>
      malloc env_fail (vector_size [[5, 6 :: float32]]) = Some 1"
    by (simp_all add: env_ok_def env_fail_def)
  from C5_scratch_released_once [of "[[1, 2], [3, 4]]" env_ok 1 "''u''"] h1
  have a: "mallocs (snd (SetShaderIntVector env_ok ''u'' [[1, 2], [3, 4]])) = [1]"
      "frees (snd (SetShaderIntVector env_ok ''u'' [[1, 2], [3, 4]])) = [1]"
    by blast+
  from C5_scratch_released_once [of "[[1, 2], [3, 4]]" env_fail 1 "''u''" "[[5, 6]]"] h2 h3
  have b: "mallocs (snd (SetShaderIntVector env_fail ''u'' [[1, 2], [3, 4]])) = [1]"
      "frees (snd (SetShaderIntVector env_fail ''u'' [[1, 2], [3, 4]])) = [1]"
      "mallocs (snd (SetShaderFloatVector env_fail ''u'' [[5, 6]])) = [1]"
      "frees (snd (SetShaderFloatVector env_fail ''u'' [[5, 6]])) = [1]"
    by blast+
  have r: "fst (SetShaderIntVector env_ok ''u'' [[1, 2], [3, 4]]) = Inr None"
      "fst (SetShaderIntVector env_fail ''u'' [[1, 2], [3, 4]]) =
        Inr (Some (Errorf ''failed to set int vector for '' ''u''))"
    by (simp_all add: run_square run_square_fail)
  from h1 h2 h3 a b r show ?thesis by (intro conjI) (simp_all only: not_False_eq_True)
qed

subsection \<open>Row-major marshalling\<close>

text \<open>
  C1, as the code has it. Take a non-empty input whose rows all have the length \<open>M\<close> of
  row 0, with at most \<open>2^30 - 1\<close> scalars in all, and a \<open>malloc\<close> that returns a block \<open>p\<close>.
  Then the run allocates the \<open>4 * N * M\<close> bytes once, and makes exactly one library call,
  the bind with the components \<open>C.int(M)\<close>, the pointer \<open>p\<close> and the elements \<open>C.int(N)\<close>;
  when that call is made, cell \<open>row * M + col\<close> of the block holds the converted scalar
  \<open>input[row][col]\<close>, for all \<open>row < N\<close> and \<open>col < M\<close>. The component count is \<open>M\<close> as a
  value, and the element count is \<open>N\<close> when \<open>N < 2^31\<close>. The conversion of an integer scalar
  keeps its low 32 bits, so it keeps the value of every scalar that fits in 32 bits; the
  conversion of a \<open>float32\<close> changes nothing. The two functions do the same, each with its
  own conversion and its own library call.
\<close>

theorem C1_row_major_marshalling:
  "(i \<noteq> [] \<and> rectangular i \<and> scalar_count i \<le> garr_len \<and> malloc env (vector_size i) = Some p \<longrightarrow>
      mallocs (snd (SetShaderIntVector env name i)) = [p] \<and>
      unat (vector_size i) = 4 * (length i * length (i ! 0)) \<and>
      native_calls (snd (SetShaderIntVector env name i)) =
        [al_set_shader_int_vector name (C_int (len (i ! 0))) (Some p) (C_int (len i))] \<and>
      row_major C_int i (memory (before_native (snd (SetShaderIntVector env name i))) p) \<and>
      sint (C_int (len (i ! 0))) = int (length (i ! 0)) \<and>
      (length i < 2 ^ 31 \<longrightarrow> sint (C_int (len i)) = int (length i))) \<and>
   (f \<noteq> [] \<and> rectangular f \<and> scalar_count f \<le> garr_len \<and> malloc env (vector_size f) = Some p \<longrightarrow>
      mallocs (snd (SetShaderFloatVector env name f)) = [p] \<and>
      unat (vector_size f) = 4 * (length f * length (f ! 0)) \<and>
      native_calls (snd (SetShaderFloatVector env name f)) =
        [al_set_shader_float_vector name (C_int (len (f ! 0))) (Some p) (C_int (len f))] \<and>
      row_major C_float f (memory (before_native (snd (SetShaderFloatVector env name f))) p) \<and>
      sint (C_int (len (f ! 0))) = int (length (f ! 0)) \<and>
      (length f < 2 ^ 31 \<longrightarrow> sint (C_int (len f)) = int (length f))) \<and>
   (- (2 ^ 31) \<le> sint v \<and> sint v < 2 ^ 31 \<longrightarrow> sint (C_int v) = sint v) \<and>
   C_float w = w"
proof (intro conjI impI)
  assume a: "i \<noteq> [] \<and> rectangular i \<and> scalar_count i \<le> garr_len \<and> malloc env (vector_size i) = Some p"
  let ?c = "al_set_shader_int_vector name (C_int (len (i ! 0))) (Some p) (C_int (len i))"
  let ?evs = "snd (SetShaderIntVector env name i)"
  from a have e: "?evs = Alloc_CString name # Malloc (vector_size i) (Some p) #
      store_events C_int p (concat i) @ [Native ?c, Free p, Free_CString name]"
    by (simp add: SetShaderIntVector_nonempty)
  show "mallocs ?evs = [p]"
    unfolding e by (simp add: mallocs_append mallocs_store_events events_simps)
  show "native_calls ?evs = [?c]"
    unfolding e by (simp add: native_calls_append native_calls_store_events events_simps)
  from a show "unat (vector_size i) = 4 * (length i * length (i ! 0))"
    by (intro unat_vector_size vector_bounds) simp_all
  from a show "row_major C_int i (memory (before_native ?evs) p)"
    unfolding e by (simp add: before_native_vector row_major_memory)
  from a have "length (i ! 0) < 2 ^ 31" by (intro vector_bounds) simp_all
  then show "sint (C_int (len (i ! 0))) = int (length (i ! 0))" by (rule sint_C_int_len)
next
  assume "length i < 2 ^ 31"
  then show "sint (C_int (len i)) = int (length i)" by (rule sint_C_int_len)
next
  assume a: "f \<noteq> [] \<and> rectangular f \<and> scalar_count f \<le> garr_len \<and> malloc env (vector_size f) = Some p"
  let ?c = "al_set_shader_float_vector name (C_int (len (f ! 0))) (Some p) (C_int (len f))"
  let ?evs = "snd (SetShaderFloatVector env name f)"
  from a have e: "?evs = Alloc_CString name # Malloc (vector_size f) (Some p) #
      store_events C_float p (concat f) @ [Native ?c, Free p, Free_CString name]"
    by (simp add: SetShaderFloatVector_nonempty)
  show "mallocs ?evs = [p]"
    unfolding e by (simp add: mallocs_append mallocs_store_events events_simps)
  show "native_calls ?evs = [?c]"
    unfolding e by (simp add: native_calls_append native_calls_store_events events_simps)
  from a show "unat (vector_size f) = 4 * (length f * length (f ! 0))"
    by (intro unat_vector_size vector_bounds) simp_all
  from a show "row_major C_float f (memory (before_native ?evs) p)"
    unfolding e by (simp add: before_native_vector row_major_memory)
  from a have "length (f ! 0) < 2 ^ 31" by (intro vector_bounds) simp_all
  then show "sint (C_int (len (f ! 0))) = int (length (f ! 0))" by (rule sint_C_int_len)
next
  assume "length f < 2 ^ 31"
  then show "sint (C_int (len f)) = int (length f)" by (rule sint_C_int_len)
next
  assume "- (2 ^ 31) \<le> sint v \<and> sint v < 2 ^ 31"
  then show "sint (C_int v) = sint v" by (simp add: sint_C_int)
next
  show "C_float w = w" by (simp add: C_float_def)
qed

text \<open>C1 at the integer input \<open>[[1, 2], [3, 4]]\<close> and the float input \<open>[[5, 6]]\<close>.\<close>

theorem C1_row_major_marshalling_witness:
  "[[1, 2], [3, 4]] \<noteq> ([] :: go_int list list) \<and>
   rectangular [[1, 2], [3, 4 :: go_int]] \<and>
   scalar_count [[1, 2], [3, 4 :: go_int]] \<le> garr_len \<and>
   malloc env_ok (vector_size [[1, 2], [3, 4 :: go_int]]) = Some 1 \<and>
   native_calls (snd (SetShaderIntVector env_ok ''u'' [[1, 2], [3, 4]])) =
     [al_set_shader_int_vector ''u'' 2 (Some 1) 2] \<and>
   row_major C_int [[1, 2], [3, 4]]
     (memory (before_native (snd (SetShaderIntVector env_ok ''u'' [[1, 2], [3, 4]]))) 1) \<and>
   memory (before_native (snd (SetShaderIntVector env_ok ''u'' [[1, 2], [3, 4]]))) 1 2 = Some 3 \<and>
   [[5, 6]] \<noteq> ([] :: float32 list list) \<and>
   rectangular [[5, 6 :: float32]] \<and>
   scalar_count [[5, 6 :: float32]] \<le> garr_len \<and>
   malloc env_ok (vector_size [[5, 6 :: float32]]) = Some 1 \<and>
   native_calls (snd (SetShaderFloatVector env_ok ''u'' [[5, 6]])) =
     [al_set_shader_float_vector ''u'' 2 (Some 1) 1] \<and>
   row_major C_float [[5, 6]]
     (memory (before_native (snd (SetShaderFloatVector env_ok ''u'' [[5, 6]]))) 1) \<and>
   memory (before_native (snd (SetShaderFloatVector env_ok ''u'' [[5, 6]]))) 1 1 = Some 6 \<and>
   sint (C_int (- 7)) = sint (- 7 :: go_int)"
proof -
  have hi: "[[1, 2], [3, 4]] \<noteq> ([] :: go_int list list) \<and>
      rectangular [[1, 2], [3, 4 :: go_int]] \<and>
      scalar_count [[1, 2], [3, 4 :: go_int]] \<le> garr_len \<and>
      malloc env_ok (vector_size [[1, 2], [3, 4 :: go_int]]) = Some 1"
    by (simp add: rectangular_def scalar_count_def garr_len_def env_ok_def)
  have hf: "[[5, 6]] \<noteq> ([] :: float32 list list) \<and>
      rectangular [[5, 6 :: float32]] \<and>
      scalar_count [[5, 6 :: float32]] \<le> garr_len \<and>
      malloc env_ok (vector_size [[5, 6 :: float32]]) = Some 1"
    by (simp add: rectangular_def scalar_count_def garr_len_def env_ok_def)
  have hv: "- (2 ^ 31) \<le> sint (- 7 :: go_int) \<and> sint (- 7 :: go_int) < 2 ^ 31"
    by simp
  note t = C1_row_major_marshalling [of "[[1, 2], [3, 4]]" env_ok 1 "''u''" "[[5, 6]]" "- 7"]
  from t hi have ci: "native_calls (snd (SetShaderIntVector env_ok ''u'' [[1, 2], [3, 4]])) =
      [al_set_shader_int_vector ''u'' (C_int (len ([[1, 2], [3, 4 :: go_int]] ! 0))) (Some 1)
        (C_int (len [[1, 2], [3, 4 :: go_int]]))]"
    and ri: "row_major C_int [[1, 2], [3, 4]]
      (memory (before_native (snd (SetShaderIntVector env_ok ''u'' [[1, 2], [3, 4]]))) 1)"
    by blast+
  from t hf have cf: "native_calls (snd (SetShaderFloatVector env_ok ''u'' [[5, 6]])) =
      [al_set_shader_float_vector ''u'' (C_int (len ([[5, 6 :: float32]] ! 0))) (Some 1)
        (C_int (len [[5, 6 :: float32]]))]"
    and rf: "row_major C_float [[5, 6]]
      (memory (before_native (snd (SetShaderFloatVector env_ok ''u'' [[5, 6]]))) 1)"
    by blast+
  from t hv have sv: "sint (C_int (- 7)) = sint (- 7 :: go_int)" by blast
  have two: "(2 :: nat) = Suc (Suc 0)" by simp
  from ri have "memory (before_native (snd (SetShaderIntVector env_ok ''u'' [[1, 2], [3, 4]]))) 1 (Suc (Suc 0)) = Some 3"
    by (simp add: row_major_def C_int_def)
  then have mi: "memory (before_native (snd (SetShaderIntVector env_ok ''u'' [[1, 2], [3, 4]]))) 1 2 = Some 3"
    by (simp only: two)
  from rf have mf: "memory (before_native (snd (SetShaderFloatVector env_ok ''u'' [[5, 6]]))) 1 1 = Some 6"
    by (simp add: row_major_def C_float_def)
  from ci have ci': "native_calls (snd (SetShaderIntVector env_ok ''u'' [[1, 2], [3, 4]])) =
     [al_set_shader_int_vector ''u'' 2 (Some 1) 2]"
    by (simp add: C_int_def len_def)
  from cf have cf': "native_calls (snd (SetShaderFloatVector env_ok ''u'' [[5, 6]])) =
     [al_set_shader_float_vector ''u'' 2 (Some 1) 1]"
    by (simp add: C_int_def len_def)
  from hi hf ci' ri mi cf' rf mf sv show ?thesis by (intro conjI) (simp_all only: not_False_eq_True)
qed

text \<open>
  C1 as stated fails in two places. The scalar \<open>2^32\<close> is stored as 0, which is not its
  value. And the rectangular input of \<open>2^30\<close> rows of one scalar each makes the loop panic
  at index \<open>2^30 - 1\<close>, so that no library call is made.
\<close>

theorem C1_value_and_size_counterexample:
  "snd (SetShaderIntVector env_ok ''u'' [[0x100000000]]) =
     [Alloc_CString ''u'', Malloc 4 (Some 1), Store 1 0 0,
      Native (al_set_shader_int_vector ''u'' 1 (Some 1) 1), Free 1, Free_CString ''u''] \<and>
   sint (0 :: C_int_t) \<noteq> sint (0x100000000 :: go_int) \<and>
   rectangular (replicate (2 ^ 30) [0 :: go_int]) \<and>
   fst (SetShaderIntVector env_ok ''u'' (replicate (2 ^ 30) [0])) =
     Inl (IndexOutOfRange (2 ^ 30 - 1)) \<and>
   native_calls (snd (SetShaderIntVector env_ok ''u'' (replicate (2 ^ 30) [0]))) = []"
proof -
  have "rectangular (replicate (2 ^ 30) [0 :: go_int])"
    by (simp add: rectangular_iff)
  with run_trunc run_big show ?thesis by simp
qed

subsection \<open>Ragged inputs\<close>

text \<open>
  C6, as the code has it. Take a non-empty input, its rows of any lengths, with at most
  \<open>2^30 - 1\<close> scalars in all and with \<open>4 * N * M\<close> below \<open>2^64\<close>, where \<open>M\<close> is the length of
  row 0, and a \<open>malloc\<close> that returns a block \<open>p\<close>. Then the run allocates \<open>4 * N * M\<close> bytes,
  that is \<open>N * M\<close> scalars, and stores the scalars of the concatenated rows at the indices
  0, 1, 2, ..., one index per scalar, so that the number of stores is the sum of the row
  lengths. All stores lie inside the block exactly when that sum is at most \<open>N * M\<close>. For
  some input whose row 1 is longer than row 0, a store lies beyond the block.
\<close>

theorem C6_concatenated_stores:
  "(i \<noteq> [] \<and> scalar_count i \<le> garr_len \<and> 4 * (length i * length (i ! 0)) < 2 ^ 64 \<and>
    malloc env (vector_size i) = Some p \<longrightarrow>
      mallocs (snd (SetShaderIntVector env name i)) = [p] \<and>
      unat (vector_size i) = 4 * (length i * length (i ! 0)) \<and>
      stores (snd (SetShaderIntVector env name i)) = stores_of C_int p (concat i) \<and>
      map (fst \<circ> snd) (stores (snd (SetShaderIntVector env name i))) = [0..<scalar_count i] \<and>
      length (stores (snd (SetShaderIntVector env name i))) = sum_list (map length i) \<and>
      list_all (\<lambda>(q, k, v). in_block (vector_size i) k) (stores (snd (SetShaderIntVector env name i))) =
        (sum_list (map length i) \<le> length i * length (i ! 0))) \<and>
   (f \<noteq> [] \<and> scalar_count f \<le> garr_len \<and> 4 * (length f * length (f ! 0)) < 2 ^ 64 \<and>
    malloc env (vector_size f) = Some p \<longrightarrow>
      mallocs (snd (SetShaderFloatVector env name f)) = [p] \<and>
      unat (vector_size f) = 4 * (length f * length (f ! 0)) \<and>
      stores (snd (SetShaderFloatVector env name f)) = stores_of C_float p (concat f) \<and>
      map (fst \<circ> snd) (stores (snd (SetShaderFloatVector env name f))) = [0..<scalar_count f] \<and>
      length (stores (snd (SetShaderFloatVector env name f))) = sum_list (map length f) \<and>
      list_all (\<lambda>(q, k, v). in_block (vector_size f) k) (stores (snd (SetShaderFloatVector env name f))) =
        (sum_list (map length f) \<le> length f * length (f ! 0))) \<and>
   (\<exists>(rows :: go_int list list) env p.
      rows \<noteq> [] \<and> length (rows ! 0) < length (rows ! 1) \<and>
      mallocs (snd (SetShaderIntVector env ''u'' rows)) = [p] \<and>
      \<not> list_all (\<lambda>(q, k, v). in_block (vector_size rows) k)
           (stores (snd (SetShaderIntVector env ''u'' rows)))) \<and>
   (\<exists>(rows :: float32 list list) env p.
      rows \<noteq> [] \<and> length (rows ! 0) < length (rows ! 1) \<and>
      mallocs (snd (SetShaderFloatVector env ''u'' rows)) = [p] \<and>
      \<not> list_all (\<lambda>(q, k, v). in_block (vector_size rows) k)
           (stores (snd (SetShaderFloatVector env ''u'' rows))))"
  using concatenated_stores [of i env p name f] ragged_beyond_block by (simp only: simp_thms)

text \<open>
  C6 at \<open>[[1], [2, 3]]\<close>: the block has 8 bytes, and the third store, at index 2, lies
  beyond it.
\<close>

theorem C6_beyond_block_witness:
  "[[1], [2, 3]] \<noteq> ([] :: go_int list list) \<and>
   scalar_count [[1], [2, 3 :: go_int]] \<le> garr_len \<and>
   4 * (length [[1], [2, 3 :: go_int]] * length ([[1], [2, 3 :: go_int]] ! 0)) < (2 :: nat) ^ 64 \<and>
   malloc env_ok (vector_size [[1], [2, 3 :: go_int]]) = Some 1 \<and>
   length ([[1], [2, 3 :: go_int]] ! 0) < length ([[1], [2, 3 :: go_int]] ! 1) \<and>
   unat (vector_size [[1], [2, 3 :: go_int]]) = 8 \<and>
   stores (snd (SetShaderIntVector env_ok ''u'' [[1], [2, 3]])) = [(1, 0, 1), (1, 1, 2), (1, 2, 3)] \<and>
   list_all (\<lambda>(q, k, v). in_block (vector_size [[1], [2, 3 :: go_int]]) k)
     (stores (snd (SetShaderIntVector env_ok ''u'' [[1], [2, 3]]))) = False \<and>
   in_block 8 2 = False"
proof -
  have h: "[[1], [2, 3]] \<noteq> ([] :: go_int list list) \<and>
      scalar_count [[1], [2, 3 :: go_int]] \<le> garr_len \<and>
      4 * (length [[1], [2, 3 :: go_int]] * length ([[1], [2, 3 :: go_int]] ! 0)) < (2 :: nat) ^ 64 \<and>
      malloc env_ok (vector_size [[1], [2, 3 :: go_int]]) = Some 1"
    by (simp add: scalar_count_def garr_len_def env_ok_def)
  note t = C6_concatenated_stores [of "[[1], [2, 3]]" env_ok 1 "''u''"]
  from t h have u: "unat (vector_size [[1], [2, 3 :: go_int]]) =
      4 * (length [[1], [2, 3 :: go_int]] * length ([[1], [2, 3 :: go_int]] ! 0))"
    and s: "stores (snd (SetShaderIntVector env_ok ''u'' [[1], [2, 3]])) =
      stores_of C_int 1 (concat [[1], [2, 3]])"
    and b: "list_all (\<lambda>(q, k, v). in_block (vector_size [[1], [2, 3 :: go_int]]) k)
        (stores (snd (SetShaderIntVector env_ok ''u'' [[1], [2, 3]]))) =
      (sum_list (map length [[1], [2, 3 :: go_int]]) \<le>
        length [[1], [2, 3 :: go_int]] * length ([[1], [2, 3 :: go_int]] ! 0))"
    by blast+
  from u have u': "unat (vector_size [[1], [2, 3 :: go_int]]) = 8" by simp
  from s have s': "stores (snd (SetShaderIntVector env_ok ''u'' [[1], [2, 3]])) =
      [(1, 0, 1), (1, 1, 2), (1, 2, 3)]"
    by (simp add: stores_of_def C_int_def)
  from b have b': "list_all (\<lambda>(q, k, v). in_block (vector_size [[1], [2, 3 :: go_int]]) k)
      (stores (snd (SetShaderIntVector env_ok ''u'' [[1], [2, 3]]))) = False"
    by simp
  have l: "length ([[1], [2, 3 :: go_int]] ! 0) < length ([[1], [2, 3 :: go_int]] ! 1)" by simp
  have o: "in_block 8 2 = False" by (simp add: in_block_def)
  from h u' s' b' l o show ?thesis by (intro conjI) (simp_all only: not_False_eq_True)
qed

text \<open>
  C6 as stated fails on large inputs. With a row 0 of \<open>2^30\<close> scalars and an empty row 1,
  the loop panics at index \<open>2^30 - 1\<close>: it has made \<open>2^30 - 1\<close> stores, not the \<open>2^30\<close> of the
  sum of the row lengths. With a row 0 of \<open>2^29\<close> scalars followed by \<open>2^33 - 1\<close> empty
  rows, \<open>N * M\<close> is \<open>2^62\<close> and the byte count wraps: the run asks \<open>malloc\<close> for 0 bytes.
\<close>

theorem C6_panic_and_wrap_counterexample:
  "length ([replicate (2 ^ 30) (0 :: go_int), []] ! 1) \<noteq> length ([replicate (2 ^ 30) (0 :: go_int), []] ! 0) \<and>
   sum_list (map length [replicate (2 ^ 30) (0 :: go_int), []]) = 2 ^ 30 \<and>
   length (stores (snd (SetShaderIntVector env_ok ''u'' [replicate (2 ^ 30) 0, []]))) = 2 ^ 30 - 1 \<and>
   fst (SetShaderIntVector env_ok ''u'' [replicate (2 ^ 30) 0, []]) = Inl (IndexOutOfRange (2 ^ 30 - 1)) \<and>
   length (replicate (2 ^ 29) (0 :: go_int) # replicate (2 ^ 33 - 1) []) *
     length ((replicate (2 ^ 29) (0 :: go_int) # replicate (2 ^ 33 - 1) []) ! 0) = 2 ^ 62 \<and>
   mallocs (snd (SetShaderIntVector env_ok ''u'' (replicate (2 ^ 29) 0 # replicate (2 ^ 33 - 1) []))) = [1] \<and>
   snd (SetShaderIntVector env_ok ''u'' (replicate (2 ^ 29) 0 # replicate (2 ^ 33 - 1) [])) ! 1 =
     Malloc 0 (Some 1)"
proof -
  let ?a = "[replicate (2 ^ 30) (0 :: go_int), []]"
  let ?b = "replicate (2 ^ 29) (0 :: go_int) # replicate (2 ^ 33 - 1) []"
  have ma: "malloc env_ok (vector_size ?a) = Some 1" and mb: "malloc env_ok (vector_size ?b) = Some 1"
    by (simp_all add: env_ok_def)
  have nea: "?a \<noteq> []" and neb: "?b \<noteq> []" by simp_all
  have big: "\<not> scalar_count ?a \<le> garr_len"
    by (simp add: scalar_count_def garr_len_def)
  have small: "scalar_count ?b \<le> garr_len"
    by (simp add: scalar_count_long_row garr_len_def)
  have vb: "vector_size ?b = 0"
    by (simp add: vector_size_def len_def C_size_t_def)
  have ta: "length (take garr_len (concat ?a)) = 2 ^ 30 - 1"
    by (simp add: garr_len_def)
  have "stores (snd (SetShaderIntVector env_ok ''u'' ?a)) =
      stores_of C_int 1 (take garr_len (concat ?a))"
    unfolding SetShaderIntVector_nonempty [OF nea ma]
    by (simp only: big if_False snd_conv)
      (simp add: stores_append stores_store_events events_simps del: concat.simps)
  then have 1: "length (stores (snd (SetShaderIntVector env_ok ''u'' ?a))) = 2 ^ 30 - 1"
    by (simp only: length_stores_of ta)
  have 2: "fst (SetShaderIntVector env_ok ''u'' ?a) = Inl (IndexOutOfRange (2 ^ 30 - 1))"
    unfolding SetShaderIntVector_nonempty [OF nea ma]
    by (simp only: big if_False fst_conv) (simp add: garr_len_def)
  have 3: "mallocs (snd (SetShaderIntVector env_ok ''u'' ?b)) = [1]"
    unfolding SetShaderIntVector_nonempty [OF neb mb]
    by (simp only: small if_True snd_conv)
      (simp add: mallocs_append mallocs_store_events events_simps del: concat.simps)
  have 4: "snd (SetShaderIntVector env_ok ''u'' ?b) ! 1 = Malloc 0 (Some 1)"
    unfolding SetShaderIntVector_nonempty [OF neb mb]
    by (simp only: small if_True snd_conv vb) simp
  have 5: "length ?b * length (?b ! 0) = 2 ^ 62" by simp
  have 6: "sum_list (map length ?a) = 2 ^ 30" by simp
  have 7: "length (?a ! 1) \<noteq> length (?a ! 0)" by simp
  from 1 2 3 4 5 6 7 show ?thesis by (intro conjI) (simp_all only: not_False_eq_True)
qed

subsection \<open>Errors of a failed library call\<close>

text \<open>
  C8. For each of \<open>SetShaderSampler\<close>, \<open>SetShaderMatrix\<close>, \<open>SetShaderInt\<close>, \<open>SetShaderFloat\<close>,
  \<open>SetShaderBool\<close>, \<open>SetShaderIntVector\<close> and \<open>SetShaderFloatVector\<close>: when the run makes a
  library call that reports failure, the result is an error whose message contains the
  uniform name. For \<open>AttachSourceFile\<close>, likewise, the message contains the file name.
\<close>

theorem C8_failure_names_uniform:
  "(Native c \<in> set (snd (SetShaderSampler env name bmp unit)) \<and> \<not> native_bool env c \<longrightarrow>
      carries name (fst (SetShaderSampler env name bmp unit))) \<and>
   (Native c \<in> set (snd (SetShaderMatrix env name matrix)) \<and> \<not> native_bool env c \<longrightarrow>
      carries name (fst (SetShaderMatrix env name matrix))) \<and>
   (Native c \<in> set (snd (SetShaderInt env name n)) \<and> \<not> native_bool env c \<longrightarrow>
      carries name (fst (SetShaderInt env name n))) \<and>
   (Native c \<in> set (snd (SetShaderFloat env name x)) \<and> \<not> native_bool env c \<longrightarrow>
      carries name (fst (SetShaderFloat env name x))) \<and>
   (Native c \<in> set (snd (SetShaderBool env name b)) \<and> \<not> native_bool env c \<longrightarrow>
      carries name (fst (SetShaderBool env name b))) \<and>
   (Native c \<in> set (snd (SetShaderIntVector env name i)) \<and> \<not> native_bool env c \<longrightarrow>
      (\<exists>e. fst (SetShaderIntVector env name i) = Inr e \<and> carries name e)) \<and>
   (Native c \<in> set (snd (SetShaderFloatVector env name f)) \<and> \<not> native_bool env c \<longrightarrow>
      (\<exists>e. fst (SetShaderFloatVector env name f) = Inr e \<and> carries name e)) \<and>
   (Native c \<in> set (snd (AttachSourceFile env s stype filename)) \<and> \<not> native_bool env c \<longrightarrow>
      carries filename (fst (AttachSourceFile env s stype filename)))"
proof (intro conjI impI)
  assume "Native c \<in> set (snd (SetShaderSampler env name bmp unit)) \<and> \<not> native_bool env c"
  then show "carries name (fst (SetShaderSampler env name bmp unit))"
    by (auto simp add: SetShaderSampler_def Let_def carries_Errorf split: if_splits)
next
  assume "Native c \<in> set (snd (SetShaderMatrix env name matrix)) \<and> \<not> native_bool env c"
  then show "carries name (fst (SetShaderMatrix env name matrix))"
    by (auto simp add: SetShaderMatrix_def Let_def carries_Errorf split: if_splits)
next
  assume "Native c \<in> set (snd (SetShaderInt env name n)) \<and> \<not> native_bool env c"
  then show "carries name (fst (SetShaderInt env name n))"
    by (auto simp add: SetShaderInt_def Let_def carries_Errorf split: if_splits)
next
  assume "Native c \<in> set (snd (SetShaderFloat env name x)) \<and> \<not> native_bool env c"
  then show "carries name (fst (SetShaderFloat env name x))"
    by (auto simp add: SetShaderFloat_def Let_def carries_Errorf split: if_splits)
next
  assume "Native c \<in> set (snd (SetShaderBool env name b)) \<and> \<not> native_bool env c"
  then show "carries name (fst (SetShaderBool env name b))"
    by (auto simp add: SetShaderBool_def Let_def carries_Errorf split: if_splits)
next
  assume a: "Native c \<in> set (snd (SetShaderIntVector env name i)) \<and> \<not> native_bool env c"
  show "\<exists>e. fst (SetShaderIntVector env name i) = Inr e \<and> carries name e"
  proof (cases "i = []")
    case True
    with a show ?thesis
      by (auto simp add: SetShaderIntVector_def Let_def carries_Errorf split: if_splits)
  next
    case False
    show ?thesis
    proof (cases "malloc env (vector_size i)")
      case None
      with False a show ?thesis
        using SetShaderIntVector_nomem [of i env name] by simp
    next
      case (Some p)
      with False a show ?thesis
        by (auto simp add: SetShaderIntVector_nonempty not_native_store_events carries_Errorf
            split: if_splits)
    qed
  qed
next
  assume a: "Native c \<in> set (snd (SetShaderFloatVector env name f)) \<and> \<not> native_bool env c"
  show "\<exists>e. fst (SetShaderFloatVector env name f) = Inr e \<and> carries name e"
  proof (cases "f = []")
    case True
    with a show ?thesis
      by (auto simp add: SetShaderFloatVector_def Let_def carries_Errorf split: if_splits)
  next
    case False
    show ?thesis
    proof (cases "malloc env (vector_size f)")
      case None
      with False a show ?thesis
        using SetShaderFloatVector_nomem [of f env name] by simp
    next
      case (Some p)
      with False a show ?thesis
        by (auto simp add: SetShaderFloatVector_nonempty not_native_store_events carries_Errorf
            split: if_splits)
    qed
  qed
next
  assume "Native c \<in> set (snd (AttachSourceFile env s stype filename)) \<and> \<not> native_bool env c"
  then show "carries filename (fst (AttachSourceFile env s stype filename))"
    by (auto simp add: AttachSourceFile_def Let_def carries_Errorf split: if_splits)
qed

text \<open>C8 for each of the eight functions, with a library that reports failure.\<close>

theorem C8_failure_names_uniform_witness:
  "Native (al_set_shader_sampler ''u'' (Some 3) 0) \<in> set (snd (SetShaderSampler env_fail ''u'' (Some 3) 0)) \<and>
   native_bool env_fail (al_set_shader_sampler ''u'' (Some 3) 0) = False \<and>
   carries ''u'' (fst (SetShaderSampler env_fail ''u'' (Some 3) 0)) \<and>
   Native (al_set_shader_matrix ''u'' (Some 4)) \<in> set (snd (SetShaderMatrix env_fail ''u'' (Some 4))) \<and>
   carries ''u'' (fst (SetShaderMatrix env_fail ''u'' (Some 4))) \<and>
   Native (al_set_shader_int ''u'' 5) \<in> set (snd (SetShaderInt env_fail ''u'' 5)) \<and>
   carries ''u'' (fst (SetShaderInt env_fail ''u'' 5)) \<and>
   Native (al_set_shader_float ''u'' 6) \<in> set (snd (SetShaderFloat env_fail ''u'' 6)) \<and>
   carries ''u'' (fst (SetShaderFloat env_fail ''u'' 6)) \<and>
   Native (al_set_shader_bool ''u'' True) \<in> set (snd (SetShaderBool env_fail ''u'' True)) \<and>
   carries ''u'' (fst (SetShaderBool env_fail ''u'' True)) \<and>
   Native (al_set_shader_int_vector ''u'' 2 (Some 1) 2) \<in> set (snd (SetShaderIntVector env_fail ''u'' [[1, 2], [3, 4]])) \<and>
   (\<exists>e. fst (SetShaderIntVector env_fail ''u'' [[1, 2], [3, 4]]) = Inr e \<and> carries ''u'' e) \<and>
   Native (al_set_shader_float_vector ''u'' 2 (Some 1) 1) \<in> set (snd (SetShaderFloatVector env_fail ''u'' [[5, 6]])) \<and>
   (\<exists>e. fst (SetShaderFloatVector env_fail ''u'' [[5, 6]]) = Inr e \<and> carries ''u'' e) \<and>
   Native (al_attach_shader_source_file (Some 2) 1 ''a.glsl'') \<in> set (snd (AttachSourceFile env_fail (Some 2) 1 ''a.glsl'')) \<and>
   carries ''a.glsl'' (fst (AttachSourceFile env_fail (Some 2) 1 ''a.glsl''))"
proof -
  have f: "native_bool env_fail c = False" for c by (simp add: env_fail_def)
  have h1: "Native (al_set_shader_sampler ''u'' (Some 3) 0) \<in> set (snd (SetShaderSampler env_fail ''u'' (Some 3) 0))"
    by (simp add: SetShaderSampler_def Let_def C_int_def)
  have h2: "Native (al_set_shader_matrix ''u'' (Some 4)) \<in> set (snd (SetShaderMatrix env_fail ''u'' (Some 4)))"
    by (simp add: SetShaderMatrix_def Let_def)
  have h3: "Native (al_set_shader_int ''u'' 5) \<in> set (snd (SetShaderInt env_fail ''u'' 5))"
    by (simp add: SetShaderInt_def Let_def C_int_def)
  have h4: "Native (al_set_shader_float ''u'' 6) \<in> set (snd (SetShaderFloat env_fail ''u'' 6))"
    by (simp add: SetShaderFloat_def Let_def C_float_def)
  have h5: "Native (al_set_shader_bool ''u'' True) \<in> set (snd (SetShaderBool env_fail ''u'' True))"
    by (simp add: SetShaderBool_def Let_def)
  have h6: "Native (al_set_shader_int_vector ''u'' 2 (Some 1) 2) \<in> set (snd (SetShaderIntVector env_fail ''u'' [[1, 2], [3, 4]]))"
    by (simp add: run_square_fail)
  have h7: "Native (al_set_shader_float_vector ''u'' 2 (Some 1) 1) \<in> set (snd (SetShaderFloatVector env_fail ''u'' [[5, 6]]))"
    by (simp add: run_float)
  have h8: "Native (al_attach_shader_source_file (Some 2) 1 ''a.glsl'') \<in> set (snd (AttachSourceFile env_fail (Some 2) 1 ''a.glsl''))"
    by (simp add: AttachSourceFile_def Let_def C_enum_def)
  from C8_failure_names_uniform [of "al_set_shader_sampler ''u'' (Some 3) 0" env_fail "''u''" "Some 3" 0] h1 f
  have c1: "carries ''u'' (fst (SetShaderSampler env_fail ''u'' (Some 3) 0))" by blast
  from C8_failure_names_uniform [of "al_set_shader_matrix ''u'' (Some 4)" env_fail "''u''" _ _ "Some 4"] h2 f
  have c2: "carries ''u'' (fst (SetShaderMatrix env_fail ''u'' (Some 4)))" by blast
  from C8_failure_names_uniform [of "al_set_shader_int ''u'' 5" env_fail "''u''" _ _ _ 5] h3 f
  have c3: "carries ''u'' (fst (SetShaderInt env_fail ''u'' 5))" by blast
  from C8_failure_names_uniform [of "al_set_shader_float ''u'' 6" env_fail "''u''" _ _ _ _ 6] h4 f
  have c4: "carries ''u'' (fst (SetShaderFloat env_fail ''u'' 6))" by blast
  from C8_failure_names_uniform [of "al_set_shader_bool ''u'' True" env_fail "''u''" _ _ _ _ _ True] h5 f
  have c5: "carries ''u'' (fst (SetShaderBool env_fail ''u'' True))" by blast
  from C8_failure_names_uniform [of "al_set_shader_int_vector ''u'' 2 (Some 1) 2" env_fail "''u''" _ _ _ _ _ _ "[[1, 2], [3, 4]]"] h6 f
  have c6: "\<exists>e. fst (SetShaderIntVector env_fail ''u'' [[1, 2], [3, 4]]) = Inr e \<and> carries ''u'' e" by blast
  from C8_failure_names_uniform [of "al_set_shader_float_vector ''u'' 2 (Some 1) 1" env_fail "''u''" _ _ _ _ _ _ _ "[[5, 6]]"] h7 f
  have c7: "\<exists>e. fst (SetShaderFloatVector env_fail ''u'' [[5, 6]]) = Inr e \<and> carries ''u'' e" by blast
  from C8_failure_names_uniform [of "al_attach_shader_source_file (Some 2) 1 ''a.glsl''" env_fail _ _ _ _ _ _ _ _ _ "Some 2" 1 "''a.glsl''"] h8 f
  have c8: "carries ''a.glsl'' (fst (AttachSourceFile env_fail (Some 2) 1 ''a.glsl''))" by blast
  from h1 h2 h3 h4 h5 h6 h7 h8 c1 c2 c3 c4 c5 c6 c7 c8 f [of "al_set_shader_sampler ''u'' (Some 3) 0"]
  show ?thesis by (intro conjI) (simp_all only:)
qed

end
